theory Spec2Isabelle
  imports Main
begin

section \<open>Python values, exceptions and the observable trace\<close>

text \<open>
  The reporter is a single-threaded Python program. Every function of the source becomes a
  function that takes the state it touches and returns its result together with the new
  state. A raised exception is the \<open>Inl\<close> branch of the result. Only subclasses of Python's
  \<open>Exception\<close> are modelled (asynchronous interrupts are not), so an \<open>except Exception\<close>
  clause and a bare \<open>except\<close> clause both catch every error of the model.
\<close>

datatype date = Date (year: int) (month: int) (day: int)

datatype pyval = PNone | PInt int | PStr string | PDate date

datatype error =
    ValueError string
  | ConnectionError string
  | DriverError string
  | TypeError string
  | IndexError string
  | AttributeError string
  | KeyError string
  | OverflowError string
  | OSError string

text \<open>\<open>str(e)\<close>: the message, except that a \<open>KeyError\<close> prints the repr of its key.\<close>

fun str_error :: "error \<Rightarrow> string" where
  "str_error (ValueError m) = m"
| "str_error (ConnectionError m) = m"
| "str_error (DriverError m) = m"
| "str_error (TypeError m) = m"
| "str_error (IndexError m) = m"
| "str_error (AttributeError m) = m"
| "str_error (KeyError k) = [CHR 0x27] @ k @ [CHR 0x27]"
| "str_error (OverflowError m) = m"
| "str_error (OSError m) = m"

datatype level = INFO | WARNING | ERROR

text \<open>
  Everything the program does to the outside world is appended to a trace: the calls into
  the database driver, the log records, the lines printed and the files written.
\<close>

datatype event =
    DrvConnect string
  | DrvCursor
  | DrvExecute string "pyval list option"
  | DrvFetchall
  | DrvCommit
  | DrvRollback
  | DrvCursorClose
  | DrvConnClose
  | Log level string
  | Print string
  | HttpPost string
  | FileWrite string string

text \<open>
  The database driver (pyodbc) is outside the repository. It is a parameter of the model: for
  each driver call, a function of the trace so far that says whether the call raises (with the
  text of the driver's error) and what it returns. A column of \<open>cursor.description\<close> is a
  tuple of which the source reads component 0, the name; the second component stands for the
  rest of the tuple.
\<close>

type_synonym column = "string \<times> string"

record odbc =
  connect_raises :: "event list \<Rightarrow> string \<Rightarrow> string option"
  cursor_raises :: "event list \<Rightarrow> string option"
  execute_raises :: "event list \<Rightarrow> string \<Rightarrow> pyval list option \<Rightarrow> string option"
  cursor_description :: "event list \<Rightarrow> column list option"
  fetchall_result :: "event list \<Rightarrow> string + pyval list list"
  cursor_rowcount :: "event list \<Rightarrow> int"
  commit_raises :: "event list \<Rightarrow> string option"
  rollback_raises :: "event list \<Rightarrow> string option"
  cursor_close_raises :: "event list \<Rightarrow> string option"
  conn_close_raises :: "event list \<Rightarrow> string option"

section \<open>The calendar arithmetic of Python's datetime module\<close>

text \<open>
  \<open>reporter.py\<close> builds dates, subtracts one day from a date and parses dates. These are
  calls into Python's standard library, modelled here as the library computes them: a date
  is checked on construction, and subtracting days goes through the proleptic Gregorian
  ordinal (day 1 is 0001-01-01).
\<close>

definition MINYEAR :: int where "MINYEAR = 1"
definition MAXYEAR :: int where "MAXYEAR = 9999"
definition MAXORDINAL :: int where "MAXORDINAL = 3652059"

definition DAYS_IN_MONTH :: "int list" where
  "DAYS_IN_MONTH = [-1, 31, 28, 31, 30, 31, 30, 31, 31, 30, 31, 30, 31]"

definition DAYS_BEFORE_MONTH :: "int list" where
  "DAYS_BEFORE_MONTH = [-1, 0, 31, 59, 90, 120, 151, 181, 212, 243, 273, 304, 334]"

definition is_leap :: "int \<Rightarrow> bool" where
  "is_leap y = (y mod 4 = 0 \<and> (y mod 100 \<noteq> 0 \<or> y mod 400 = 0))"

definition days_before_year :: "int \<Rightarrow> int" where
  "days_before_year yr = (let y = yr - 1 in y * 365 + y div 4 - y div 100 + y div 400)"

definition days_in_month :: "int \<Rightarrow> int \<Rightarrow> int" where
  "days_in_month y m = (if m = 2 \<and> is_leap y then 29 else DAYS_IN_MONTH ! nat m)"

definition days_before_month :: "int \<Rightarrow> int \<Rightarrow> int" where
  "days_before_month y m =
     DAYS_BEFORE_MONTH ! nat m + (if m > 2 \<and> is_leap y then 1 else 0)"

definition ymd2ord :: "int \<Rightarrow> int \<Rightarrow> int \<Rightarrow> int" where
  "ymd2ord y m d = days_before_year y + days_before_month y m + d"

definition DI400Y :: int where "DI400Y = days_before_year 401"
definition DI100Y :: int where "DI100Y = days_before_year 101"
definition DI4Y :: int where "DI4Y = days_before_year 5"

definition ord2ymd :: "int \<Rightarrow> int \<times> int \<times> int" where
  "ord2ymd n0 =
     (let n = n0 - 1;
          n400 = n div DI400Y; n = n mod DI400Y;
          yr = n400 * 400 + 1;
          n100 = n div DI100Y; n = n mod DI100Y;
          n4 = n div DI4Y; n = n mod DI4Y;
          n1 = n div 365; n = n mod 365;
          yr = yr + n100 * 100 + n4 * 4 + n1
      in if n1 = 4 \<or> n100 = 4 then (yr - 1, 12, 31)
         else
           (let leapyear = (n1 = 3 \<and> (n4 \<noteq> 24 \<or> n100 = 3));
                mth = (n + 50) div 32;
                preceding = DAYS_BEFORE_MONTH ! nat mth + (if mth > 2 \<and> leapyear then 1 else 0)
            in if preceding > n
               then (let mth = mth - 1;
                         preceding = preceding -
                           (DAYS_IN_MONTH ! nat mth + (if mth = 2 \<and> leapyear then 1 else 0))
                     in (yr, mth, n - preceding + 1))
               else (yr, mth, n - preceding + 1)))"

text \<open>\<open>date(y, m, d)\<close>: the constructor checks its fields.\<close>

definition date_new :: "int \<Rightarrow> int \<Rightarrow> int \<Rightarrow> error + date" where
  "date_new y m d =
     (if \<not> (MINYEAR \<le> y \<and> y \<le> MAXYEAR) then Inl (ValueError ''year is out of range'')
      else if \<not> (1 \<le> m \<and> m \<le> 12) then Inl (ValueError ''month must be in 1..12'')
      else if \<not> (1 \<le> d \<and> d \<le> days_in_month y m)
        then Inl (ValueError ''day is out of range for month'')
      else Inr (Date y m d))"

definition toordinal :: "date \<Rightarrow> int" where
  "toordinal dt = ymd2ord (year dt) (month dt) (day dt)"

definition fromordinal :: "int \<Rightarrow> error + date" where
  "fromordinal n = (case ord2ymd n of (y, m, d) \<Rightarrow> date_new y m d)"

text \<open>\<open>dt - timedelta(days=k)\<close>.\<close>

definition date_sub_days :: "date \<Rightarrow> int \<Rightarrow> error + date" where
  "date_sub_days dt k =
     (let ordinal = toordinal dt + (- k)
      in if 0 < ordinal \<and> ordinal \<le> MAXORDINAL then fromordinal ordinal
         else Inl (OverflowError ''date value out of range''))"

text \<open>Dates compare as the tuples (year, month, day).\<close>

definition date_gt :: "date \<Rightarrow> date \<Rightarrow> bool" where
  "date_gt a b =
     (year a > year b \<or> (year a = year b \<and>
        (month a > month b \<or> (month a = month b \<and> day a > day b))))"

definition date_le :: "date \<Rightarrow> date \<Rightarrow> bool" where
  "date_le a b = (\<not> date_gt a b)"

text \<open>
  \<open>datetime.strptime(s, "%Y-%m-%d")\<close> compiles the format to the regular expression
  \<open>(\d\d\d\d)-(1[0-2]|0[1-9]|[1-9])-(3[0-1]|[1-2]\d|0[1-9]|[1-9]| [1-9])\<close>, matches it
  at the start of the string, and then requires that nothing remains. Each matcher below
  returns the ways its group can match, in the order the alternatives are tried; the head
  of the combined list is the match a backtracking search finds. Strings are byte strings
  here, so a digit is an ASCII digit.
\<close>

definition is_digit :: "char \<Rightarrow> bool" where
  "is_digit c = ((48::nat) \<le> of_char c \<and> of_char c \<le> (57::nat))"

definition in_range :: "char \<Rightarrow> char \<Rightarrow> char \<Rightarrow> bool" where
  "in_range lo hi c = ((of_char lo :: nat) \<le> of_char c \<and> (of_char c :: nat) \<le> of_char hi)"

definition digit_val :: "char \<Rightarrow> int" where
  "digit_val c = int (of_char c) - 48"

fun match_Y :: "string \<Rightarrow> (int \<times> string) list" where
  "match_Y (a # b # c # d # rest) =
     (if is_digit a \<and> is_digit b \<and> is_digit c \<and> is_digit d
      then [(digit_val a * 1000 + digit_val b * 100 + digit_val c * 10 + digit_val d, rest)]
      else [])"
| "match_Y _ = []"

definition match_m :: "string \<Rightarrow> (int \<times> string) list" where
  "match_m s =
     (case s of a # b # rest \<Rightarrow>
        (if a = CHR ''1'' \<and> in_range CHR ''0'' CHR ''2'' b then [(10 + digit_val b, rest)] else []) @
        (if a = CHR ''0'' \<and> in_range CHR ''1'' CHR ''9'' b then [(digit_val b, rest)] else [])
      | _ \<Rightarrow> []) @
     (case s of a # rest \<Rightarrow>
        (if in_range CHR ''1'' CHR ''9'' a then [(digit_val a, rest)] else [])
      | _ \<Rightarrow> [])"

definition match_d :: "string \<Rightarrow> (int \<times> string) list" where
  "match_d s =
     (case s of a # b # rest \<Rightarrow>
        (if a = CHR ''3'' \<and> in_range CHR ''0'' CHR ''1'' b then [(30 + digit_val b, rest)] else []) @
        (if in_range CHR ''1'' CHR ''2'' a \<and> is_digit b
         then [(digit_val a * 10 + digit_val b, rest)] else []) @
        (if a = CHR ''0'' \<and> in_range CHR ''1'' CHR ''9'' b then [(digit_val b, rest)] else [])
      | _ \<Rightarrow> []) @
     (case s of a # rest \<Rightarrow>
        (if in_range CHR ''1'' CHR ''9'' a then [(digit_val a, rest)] else [])
      | _ \<Rightarrow> []) @
     (case s of a # b # rest \<Rightarrow>
        (if a = CHR '' '' \<and> in_range CHR ''1'' CHR ''9'' b then [(digit_val b, rest)] else [])
      | _ \<Rightarrow> [])"

definition match_lit :: "char \<Rightarrow> string \<Rightarrow> string list" where
  "match_lit c s = (case s of a # rest \<Rightarrow> (if a = c then [rest] else []) | [] \<Rightarrow> [])"

definition match_Ymd :: "string \<Rightarrow> ((int \<times> int \<times> int) \<times> string) list" where
  "match_Ymd s =
     concat (map (\<lambda>(y, s1).
       concat (map (\<lambda>s2.
         concat (map (\<lambda>(m, s3).
           concat (map (\<lambda>s4.
             map (\<lambda>(d, s5). ((y, m, d), s5)) (match_d s4))
             (match_lit CHR ''-'' s3)))
           (match_m s2)))
         (match_lit CHR ''-'' s1)))
       (match_Y s))"

definition strptime_Ymd :: "string \<Rightarrow> error + date" where
  "strptime_Ymd s =
     (case match_Ymd s of
        [] \<Rightarrow> Inl (ValueError (''time data '' @ s @ '' does not match format %Y-%m-%d''))
      | ((y, m, d), rest) # others \<Rightarrow>
          if rest \<noteq> [] then Inl (ValueError (''unconverted data remains: '' @ rest))
          else date_new y m d)"

section \<open>modules/database/sql\_connection.py\<close>

text \<open>
  The fields of a \<open>SQLConnection\<close>. \<open>conn\<close> and \<open>cursor\<close> are \<open>None\<close> or a driver
  object; a driver object is named by the position in the trace of the call that made it.
\<close>

record sqlconn =
  server :: string
  database :: string
  username :: "string option"
  password :: "string option"
  trusted_connection :: bool
  driver :: string
  conn :: "nat option"
  cursor :: "nat option"

type_synonym st = "sqlconn \<times> event list"

text \<open>\<open>not s\<close> for an optional string: true for \<open>None\<close> and for the empty string.\<close>

definition falsy_str :: "string option \<Rightarrow> bool" where
  "falsy_str s = (case s of None \<Rightarrow> True | Some v \<Rightarrow> v = [])"

text \<open>Method calls on the two driver objects; on \<open>None\<close> the attribute lookup raises.\<close>

definition cursor_execute :: "odbc \<Rightarrow> string \<Rightarrow> pyval list option \<Rightarrow> st \<Rightarrow> (error + unit) \<times> st" where
  "cursor_execute d script params s =
     (case s of (self, tr) \<Rightarrow>
        (case cursor self of
           None \<Rightarrow> (Inl (AttributeError ''execute''), self, tr)
         | Some c \<Rightarrow>
             (case execute_raises d tr script params of
                Some m \<Rightarrow> (Inl (DriverError m), self, tr @ [DrvExecute script params])
              | None \<Rightarrow> (Inr (), self, tr @ [DrvExecute script params]))))"

definition conn_commit :: "odbc \<Rightarrow> st \<Rightarrow> (error + unit) \<times> st" where
  "conn_commit d s =
     (case s of (self, tr) \<Rightarrow>
        (case conn self of
           None \<Rightarrow> (Inl (AttributeError ''commit''), self, tr)
         | Some c \<Rightarrow>
             (case commit_raises d tr of
                Some m \<Rightarrow> (Inl (DriverError m), self, tr @ [DrvCommit])
              | None \<Rightarrow> (Inr (), self, tr @ [DrvCommit]))))"

definition conn_rollback :: "odbc \<Rightarrow> st \<Rightarrow> (error + unit) \<times> st" where
  "conn_rollback d s =
     (case s of (self, tr) \<Rightarrow>
        (case conn self of
           None \<Rightarrow> (Inl (AttributeError ''rollback''), self, tr)
         | Some c \<Rightarrow>
             (case rollback_raises d tr of
                Some m \<Rightarrow> (Inl (DriverError m), self, tr @ [DrvRollback])
              | None \<Rightarrow> (Inr (), self, tr @ [DrvRollback]))))"

subsection \<open>connect\<close>

definition connection_string :: "sqlconn \<Rightarrow> error + string" where
  "connection_string self =
     (let cs = ''DRIVER={'' @ driver self @ ''};'';
          cs = cs @ ''SERVER='' @ server self @ '';'';
          cs = cs @ ''DATABASE='' @ database self @ '';''
      in if trusted_connection self then Inr (cs @ ''Trusted_Connection=yes;'')
         else if falsy_str (username self) \<or> falsy_str (password self)
           then Inl (ValueError
             ''Username and password are required when not using trusted connection'')
           else (case (username self, password self) of
                   (Some u, Some p) \<Rightarrow> Inr (cs @ ''UID='' @ u @ '';'' @ ''PWD='' @ p @ '';'')
                 | _ \<Rightarrow> Inl (ValueError
                     ''Username and password are required when not using trusted connection'')))"

text \<open>The body of the \<open>try\<close> block of \<open>connect\<close>.\<close>

definition connect_try :: "odbc \<Rightarrow> st \<Rightarrow> (error + bool) \<times> st" where
  "connect_try d s =
     (case s of (self, tr) \<Rightarrow>
        (case connection_string self of
           Inl e \<Rightarrow> (Inl e, self, tr)
         | Inr cs \<Rightarrow>
             (case connect_raises d tr cs of
                Some m \<Rightarrow> (Inl (DriverError m), self, tr @ [DrvConnect cs])
              | None \<Rightarrow>
                  (let self1 = self\<lparr>conn := Some (length tr)\<rparr>;
                       tr1 = tr @ [DrvConnect cs]
                   in (case cursor_raises d tr1 of
                         Some m \<Rightarrow> (Inl (DriverError m), self1, tr1 @ [DrvCursor])
                       | None \<Rightarrow>
                           (Inr True, self1\<lparr>cursor := Some (length tr1)\<rparr>,
                            tr1 @ [DrvCursor]))))))"

definition connect :: "odbc \<Rightarrow> st \<Rightarrow> (error + bool) \<times> st" where
  "connect d s =
     (case connect_try d s of
        (Inl e, self1, tr1) \<Rightarrow>
          (Inr False, self1,
           tr1 @ [Log ERROR (''Failed to connect to database: '' @ str_error e)])
      | (Inr b, s1) \<Rightarrow> (Inr b, s1))"

text \<open>\<open>__init__\<close> stores its arguments and then calls \<open>connect\<close>, dropping its result.\<close>

definition SQLConnection ::
  "odbc \<Rightarrow> string \<Rightarrow> string \<Rightarrow> string option \<Rightarrow> string option \<Rightarrow> bool \<Rightarrow> string
     \<Rightarrow> event list \<Rightarrow> (error + unit) \<times> st" where
  "SQLConnection d srv dbn usr pwd trusted drv tr =
     (let self = \<lparr>server = srv, database = dbn, username = usr, password = pwd,
                  trusted_connection = trusted, driver = drv, conn = None, cursor = None\<rparr>
      in (case connect d (self, tr) of
            (Inl e, s1) \<Rightarrow> (Inl e, s1)
          | (Inr b, s1) \<Rightarrow> (Inr (), s1)))"

subsection \<open>is\_connected, reconnect\_if\_needed\<close>

definition is_connected :: "odbc \<Rightarrow> st \<Rightarrow> (error + bool) \<times> st" where
  "is_connected d s =
     (case s of (self, tr) \<Rightarrow>
        if conn self = None then (Inr False, self, tr)
        else (case cursor_execute d ''SELECT 1'' None (self, tr) of
                (Inr u, s1) \<Rightarrow> (Inr True, s1)
              | (Inl e, s1) \<Rightarrow> (Inr False, s1)))"

definition reconnect_if_needed :: "odbc \<Rightarrow> st \<Rightarrow> (error + bool) \<times> st" where
  "reconnect_if_needed d s =
     (case is_connected d s of
        (Inl e, s1) \<Rightarrow> (Inl e, s1)
      | (Inr True, s1) \<Rightarrow> (Inr True, s1)
      | (Inr False, s1) \<Rightarrow> connect d s1)"

subsection \<open>exec\<close>

text \<open>
  A Python dict keeps its keys in insertion order; storing under a key that is present
  replaces the value and keeps the key's position.
\<close>

fun dict_set :: "('k \<times> 'v) list \<Rightarrow> 'k \<Rightarrow> 'v \<Rightarrow> ('k \<times> 'v) list" where
  "dict_set [] k v = [(k, v)]"
| "dict_set ((k', v') # m) k v = (if k' = k then (k, v) # m else (k', v') # dict_set m k v)"

type_synonym row = "(string \<times> pyval) list"

text \<open>
  The comprehension \<open>{columns[i]: value for i, value in enumerate(row)}\<close>, from position
  \<open>i\<close> on; \<open>columns[i]\<close> raises when the row is longer than the column list.
\<close>

fun row_dict :: "string list \<Rightarrow> nat \<Rightarrow> pyval list \<Rightarrow> row \<Rightarrow> error + row" where
  "row_dict columns i [] acc = Inr acc"
| "row_dict columns i (v # vs) acc =
     (if i < length columns then row_dict columns (Suc i) vs (dict_set acc (columns ! i) v)
      else Inl (IndexError ''list index out of range''))"

text \<open>The loop over the fetched rows, appending one dict per row.\<close>

fun build_results :: "string list \<Rightarrow> pyval list list \<Rightarrow> row list \<Rightarrow> error + row list" where
  "build_results columns [] results = Inr results"
| "build_results columns (r # rs) results =
     (case row_dict columns 0 r [] of
        Inl e \<Rightarrow> Inl e
      | Inr m \<Rightarrow> build_results columns rs (results @ [m]))"

datatype result = Rows "row list" | Count int

text \<open>The inner \<open>try\<close> block of \<open>exec\<close>: read the description, fetch, commit.\<close>

definition exec_fetch :: "odbc \<Rightarrow> st \<Rightarrow> (error + result) \<times> st" where
  "exec_fetch d s =
     (case s of (self, tr) \<Rightarrow>
        (case cursor self of
           None \<Rightarrow> (Inl (AttributeError ''description''), self, tr)
         | Some c \<Rightarrow>
             (case cursor_description d tr of
                None \<Rightarrow> (Inl (TypeError ''NoneType object is not iterable''), self, tr)
              | Some desc \<Rightarrow>
                  (let columns = map fst desc in
                   (case fetchall_result d tr of
                      Inl m \<Rightarrow> (Inl (DriverError m), self, tr @ [DrvFetchall])
                    | Inr fetched \<Rightarrow>
                        (case build_results columns fetched [] of
                           Inl e \<Rightarrow> (Inl e, self, tr @ [DrvFetchall])
                         | Inr results \<Rightarrow>
                             (case conn_commit d (self, tr @ [DrvFetchall]) of
                                (Inl e, s1) \<Rightarrow> (Inl e, s1)
                              | (Inr u, s1) \<Rightarrow> (Inr (Rows results), s1))))))))"

text \<open>The handler of the inner \<open>try\<close>: the affected-row count, then commit.\<close>

definition exec_count :: "odbc \<Rightarrow> st \<Rightarrow> (error + result) \<times> st" where
  "exec_count d s =
     (case s of (self, tr) \<Rightarrow>
        (case cursor self of
           None \<Rightarrow> (Inl (AttributeError ''rowcount''), self, tr)
         | Some c \<Rightarrow>
             (let affected_rows = cursor_rowcount d tr in
              (case conn_commit d (self, tr) of
                 (Inl e, s1) \<Rightarrow> (Inl e, s1)
               | (Inr u, s1) \<Rightarrow> (Inr (Count affected_rows), s1)))))"

text \<open>\<open>if params\<close>: \<open>None\<close> and the empty sequence are both false.\<close>

definition truthy_params :: "pyval list option \<Rightarrow> bool" where
  "truthy_params params = (case params of None \<Rightarrow> False | Some ps \<Rightarrow> ps \<noteq> [])"

text \<open>The outer \<open>try\<close> block of \<open>exec\<close>.\<close>

definition exec_try :: "odbc \<Rightarrow> string \<Rightarrow> pyval list option \<Rightarrow> st \<Rightarrow> (error + result) \<times> st" where
  "exec_try d script params s =
     (case (if truthy_params params then cursor_execute d script params s
            else cursor_execute d script None s) of
        (Inl e, s1) \<Rightarrow> (Inl e, s1)
      | (Inr u, s1) \<Rightarrow>
          (case exec_fetch d s1 of
             (Inr r, s2) \<Rightarrow> (Inr r, s2)
           | (Inl e, s2) \<Rightarrow> exec_count d s2))"

definition exec :: "odbc \<Rightarrow> string \<Rightarrow> pyval list option \<Rightarrow> st \<Rightarrow> (error + result) \<times> st" where
  "exec d script params s =
     (case reconnect_if_needed d s of
        (Inl e, s1) \<Rightarrow> (Inl e, s1)
      | (Inr False, self1, tr1) \<Rightarrow>
          (Inl (ConnectionError ''Failed to connect to database''), self1,
           tr1 @ [Log ERROR ''Failed to connect to database''])
      | (Inr True, s1) \<Rightarrow>
          (case exec_try d script params s1 of
             (Inr r, s2) \<Rightarrow> (Inr r, s2)
           | (Inl e, s2) \<Rightarrow>
               (case conn_rollback d s2 of
                  (Inl e', s3) \<Rightarrow> (Inl e', s3)
                | (Inr u, self3, tr3) \<Rightarrow>
                    (Inl e, self3,
                     tr3 @ [Log ERROR (''Error executing SQL script: '' @ str_error e)]))))"

subsection \<open>close\<close>

definition close :: "odbc \<Rightarrow> st \<Rightarrow> (error + unit) \<times> st" where
  "close d s =
     (case s of (self, tr) \<Rightarrow>
        (case (if cursor self \<noteq> None
               then (case cursor_close_raises d tr of
                       Some m \<Rightarrow> (Inl (DriverError m), tr @ [DrvCursorClose])
                     | None \<Rightarrow> (Inr (), tr @ [DrvCursorClose]))
               else (Inr (), tr)) of
           (Inl e, tr1) \<Rightarrow> (Inl e, self, tr1)
         | (Inr u, tr1) \<Rightarrow>
             (case (if conn self \<noteq> None
                    then (case conn_close_raises d tr1 of
                            Some m \<Rightarrow> (Inl (DriverError m), tr1 @ [DrvConnClose])
                          | None \<Rightarrow> (Inr (), tr1 @ [DrvConnClose]))
                    else (Inr (), tr1)) of
                (Inl e, tr2) \<Rightarrow> (Inl e, self, tr2)
              | (Inr u, tr2) \<Rightarrow> (Inr (), self\<lparr>cursor := None, conn := None\<rparr>, tr2))))"

section \<open>modules/database/queries.py\<close>

definition nl :: string where "nl = [CHR 0x0A]"

definition get_ops_between_dates :: string where
  "get_ops_between_dates =
     nl @ ''SELECT'' @ nl @
     ''    o.ID AS [id],'' @ nl @
     ''    o.oper_date AS [date],'' @ nl @
     ''    u.emp_id AS [emp_id],'' @ nl @
     ''    u.first_name AS [name],'' @ nl @
     ''    u.last_name AS [lastname],'' @ nl @
     ''    t.name AS [terminal],'' @ nl @
     ''    o.credit_block AS [block]'' @ nl @
     ''FROM'' @ nl @
     ''    ven_operations o'' @ nl @
     ''INNER JOIN'' @ nl @
     ''    ven_users u ON o.user_id = u.ID'' @ nl @
     ''INNER JOIN'' @ nl @
     ''    ven_terminals t ON o.terminal_id = t.ID'' @ nl @
     ''WHERE'' @ nl @
     ''    o.oper_date BETWEEN ? AND ?'' @ nl @
     ''ORDER BY'' @ nl @
     ''    o.oper_date DESC;'' @ nl"

section \<open>The collaborators of a run\<close>

text \<open>
  What a run reads from outside the repository is gathered in one record: the parsed command
  line, what \<open>load_configs\<close> returned, today's date, the database driver, the bytes that
  the spreadsheet library produces for a list of rows, the answer of the HTTP mail service
  (an error text when \<open>requests.post\<close> raises, else the status code), whether opening the
  output file fails, and the C library's \<open>strftime("%Y%m%d")\<close>.
\<close>

record args =
  last_month :: bool
  between :: "string option"
  and_arg :: "string option"
  config_arg :: string

type_synonym db_config = "string \<rightharpoonup> (string \<rightharpoonup> string option)"

type_synonym recipient = "string \<rightharpoonup> string"

text \<open>
  The mail section of the configuration: its text entries by key, and the entry
  \<open>recipients\<close>, a list of dicts, when present.
\<close>

record mail_config =
  entries :: "string \<rightharpoonup> string"
  recipients :: "recipient list option"

record config =
  db :: "db_config option"
  mail :: "mail_config option"

type_synonym bcc = "(string \<times> string option) list"

record env =
  env_args :: args
  env_config_path :: string
  env_config :: "error + config"
  env_today :: date
  env_odbc :: odbc
  env_workbook :: "row list \<Rightarrow> string + string"
  env_post :: "event list \<Rightarrow> string \<Rightarrow> bcc \<Rightarrow> string \<Rightarrow> mail_config \<Rightarrow> string + nat"
  env_open_raises :: "event list \<Rightarrow> string \<Rightarrow> string option"
  env_strftime_Ymd :: "date \<Rightarrow> string"

section \<open>modules/excel.py\<close>

text \<open>
  \<open>generate_excel_report\<close> refuses an empty list; for the rest it returns what the
  spreadsheet library saves (or the library's error).
\<close>

definition generate_excel_report :: "env \<Rightarrow> row list \<Rightarrow> error + string" where
  "generate_excel_report e data =
     (if data = [] then Inl (ValueError ''Data list is empty.'')
      else (case env_workbook e data of
              Inl m \<Rightarrow> Inl (ValueError m)
            | Inr bytes \<Rightarrow> Inr bytes))"

section \<open>modules/mail.py\<close>

text \<open>Decimal digits of a natural number, and zero padding, for formatted messages.\<close>

fun str_nat :: "nat \<Rightarrow> string" where
  "str_nat n =
     (if n < 10 then [char_of (48 + n)] else str_nat (n div 10) @ [char_of (48 + n mod 10)])"

definition zfill :: "nat \<Rightarrow> string \<Rightarrow> string" where
  "zfill w s = replicate (w - length s) CHR ''0'' @ s"

definition required_config :: "string list" where
  "required_config = [''api_url'', ''api_key'', ''from_email'', ''from_name'', ''subject'']"

text \<open>The first required parameter that the configuration lacks, if any.\<close>

fun missing_param :: "(string \<rightharpoonup> string) \<Rightarrow> string list \<Rightarrow> string option" where
  "missing_param cfg [] = None"
| "missing_param cfg (p # ps) = (if cfg p = None then Some p else missing_param cfg ps)"

text \<open>
  The loop that builds the BCC list: a recipient without an address is skipped with a
  warning; the display name is kept when present and not empty.
\<close>

fun build_bcc :: "recipient list \<Rightarrow> bcc \<Rightarrow> event list \<Rightarrow> bcc \<times> event list" where
  "build_bcc [] bcc_list tr = (bcc_list, tr)"
| "build_bcc (r # rs) bcc_list tr =
     (case r ''email'' of
        None \<Rightarrow>
          build_bcc rs bcc_list (tr @ [Log WARNING ''Skipping recipient without email address''])
      | Some addr \<Rightarrow>
          build_bcc rs
            (bcc_list @ [(addr, (case r ''name'' of
                                   None \<Rightarrow> None
                                 | Some n \<Rightarrow> if n \<noteq> [] then Some n else None))])
            tr)"

definition send_try ::
  "env \<Rightarrow> recipient list \<Rightarrow> string \<Rightarrow> mail_config \<Rightarrow> event list \<Rightarrow> (error + bool) \<times> event list" where
  "send_try e rcpts excel_attachment cfg tr =
     (case missing_param (entries cfg) required_config of
        Some p \<Rightarrow> (Inl (ValueError (''Missing required configuration parameter: '' @ p)), tr)
      | None \<Rightarrow>
          (case build_bcc rcpts [] tr of (bcc_list, tr1) \<Rightarrow>
             if bcc_list = []
             then (Inr False, tr1 @ [Log ERROR ''No valid recipients provided''])
             else (case entries cfg ''api_url'' of
                     None \<Rightarrow> (Inl (KeyError ''api_url''), tr1)
                   | Some url \<Rightarrow>
                       (case env_post e tr1 url bcc_list excel_attachment cfg of
                          Inl m \<Rightarrow> (Inl (OSError m), tr1 @ [HttpPost url])
                        | Inr status_code \<Rightarrow>
                            if status_code = 200 \<or> status_code = 202
                            then (Inr True, tr1 @ [HttpPost url,
                                    Log INFO (''Email sent successfully to '' @
                                      str_nat (length bcc_list) @ '' recipients'')])
                            else (Inr False, tr1 @ [HttpPost url,
                                    Log ERROR (''Failed to send email. Status code: '' @
                                      str_nat status_code)])))))"

definition send_email_with_attachment ::
  "env \<Rightarrow> recipient list \<Rightarrow> string \<Rightarrow> mail_config \<Rightarrow> event list \<Rightarrow> (error + bool) \<times> event list" where
  "send_email_with_attachment e rcpts excel_attachment cfg tr =
     (case send_try e rcpts excel_attachment cfg tr of
        (Inl err, tr1) \<Rightarrow>
          (Inr False, tr1 @ [Log ERROR (''Error sending email: '' @ str_error err)])
      | (Inr b, tr1) \<Rightarrow> (Inr b, tr1))"

section \<open>reporter.py\<close>

subsection \<open>get\_date\_range\<close>

definition strptime_arg :: "string option \<Rightarrow> error + date" where
  "strptime_arg a =
     (case a of
        None \<Rightarrow> Inl (TypeError ''strptime() argument 1 must be str, not None'')
      | Some s \<Rightarrow> strptime_Ymd s)"

text \<open>The \<open>try\<close> block of the explicit-range branch.\<close>

definition range_try :: "args \<Rightarrow> error + date \<times> date" where
  "range_try a =
     (case strptime_arg (between a) of
        Inl e \<Rightarrow> Inl e
      | Inr start_date \<Rightarrow>
          (case strptime_arg (and_arg a) of
             Inl e \<Rightarrow> Inl e
           | Inr end_date \<Rightarrow>
               if date_gt start_date end_date
               then Inl (ValueError ''Start date cannot be after end date'')
               else Inr (start_date, end_date)))"

definition get_date_range :: "date \<Rightarrow> args \<Rightarrow> error + date \<times> date" where
  "get_date_range today a =
     (if last_month a then
        (case date_new (year today) (month today) 1 of
           Inl e \<Rightarrow> Inl e
         | Inr first_day_current \<Rightarrow>
             (case date_sub_days first_day_current 1 of
                Inl e \<Rightarrow> Inl e
              | Inr last_day_previous \<Rightarrow>
                  (case date_new (year last_day_previous) (month last_day_previous) 1 of
                     Inl e \<Rightarrow> Inl e
                   | Inr first_day_previous \<Rightarrow> Inr (first_day_previous, last_day_previous))))
      else
        (case range_try a of
           Inl (ValueError m) \<Rightarrow> Inl (ValueError (''Invalid date format: '' @ m))
         | Inl e \<Rightarrow> Inl e
         | Inr r \<Rightarrow> Inr r))"

subsection \<open>fetch\_data\<close>

text \<open>\<open>db_config["connection_data"][k]\<close>; a missing key raises \<open>KeyError\<close>.\<close>

definition connection_data :: "db_config \<Rightarrow> string \<Rightarrow> error + string option" where
  "connection_data db_config k =
     (case db_config ''connection_data'' of
        None \<Rightarrow> Inl (KeyError ''connection_data'')
      | Some section \<Rightarrow>
          (case section k of None \<Rightarrow> Inl (KeyError k) | Some v \<Rightarrow> Inr v))"

text \<open>A null host or database name is formatted as \<open>None\<close> into the connection string.\<close>

definition fmt :: "string option \<Rightarrow> string" where
  "fmt v = (case v of None \<Rightarrow> ''None'' | Some s \<Rightarrow> s)"

text \<open>The \<open>try\<close> block of \<open>fetch_data\<close>.\<close>

definition fetch_try ::
  "odbc \<Rightarrow> db_config \<Rightarrow> date \<Rightarrow> date \<Rightarrow> event list \<Rightarrow> (error + result) \<times> event list" where
  "fetch_try d db_config start_date end_date tr =
     (case connection_data db_config ''host'' of Inl e \<Rightarrow> (Inl e, tr) | Inr host \<Rightarrow>
      (case connection_data db_config ''database'' of Inl e \<Rightarrow> (Inl e, tr) | Inr dbname \<Rightarrow>
       (case connection_data db_config ''user'' of Inl e \<Rightarrow> (Inl e, tr) | Inr usr \<Rightarrow>
        (case connection_data db_config ''password'' of Inl e \<Rightarrow> (Inl e, tr) | Inr pwd \<Rightarrow>
         (case SQLConnection d (fmt host) (fmt dbname) usr pwd False
                 ''ODBC Driver 17 for SQL Server'' tr of
            (Inl e, connection, tr1) \<Rightarrow> (Inl e, tr1)
          | (Inr u, s1) \<Rightarrow>
              (let params = Some [PDate start_date, PDate end_date] in
               (case exec d get_ops_between_dates params s1 of
                  (Inl e, connection, tr2) \<Rightarrow> (Inl e, tr2)
                | (Inr results, s2) \<Rightarrow>
                    (case close d s2 of
                       (Inl e, connection, tr3) \<Rightarrow> (Inl e, tr3)
                     | (Inr u, connection, tr3) \<Rightarrow> (Inr results, tr3)))))))))"

definition fetch_data ::
  "odbc \<Rightarrow> db_config \<Rightarrow> date \<Rightarrow> date \<Rightarrow> event list \<Rightarrow> (error + result) \<times> event list" where
  "fetch_data d db_config start_date end_date tr =
     (case fetch_try d db_config start_date end_date tr of
        (Inl (ConnectionError m), tr1) \<Rightarrow>
          (Inl (ConnectionError m), tr1 @ [Log ERROR (''Database connection error: '' @ m)])
      | (Inl e, tr1) \<Rightarrow> (Inl e, tr1 @ [Log ERROR (''Error fetching data: '' @ str_error e)])
      | (Inr results, tr1) \<Rightarrow> (Inr results, tr1))"

subsection \<open>main\<close>

text \<open>\<open>str(d)\<close> of a date: \<open>YYYY-MM-DD\<close>, zero padded.\<close>

definition str_date :: "date \<Rightarrow> string" where
  "str_date dt =
     zfill 4 (str_nat (nat (year dt))) @ ''-'' @ zfill 2 (str_nat (nat (month dt))) @ ''-'' @
     zfill 2 (str_nat (nat (day dt)))"

definition mail_keys :: "string list" where
  "mail_keys = [''api_url'', ''api_key'', ''from_email'', ''from_name'', ''subject'', ''recipients'']"

text \<open>\<open>key in config["mail"]\<close>.\<close>

definition mail_has :: "mail_config \<Rightarrow> string \<Rightarrow> bool" where
  "mail_has m k = (if k = ''recipients'' then recipients m \<noteq> None else entries m k \<noteq> None)"

text \<open>The mail branch of \<open>main\<close>, taken when the mail section has all six keys.\<close>

definition deliver :: "env \<Rightarrow> mail_config \<Rightarrow> string \<Rightarrow> event list \<Rightarrow> (error + int) \<times> event list" where
  "deliver e m excel_data tr =
     (case recipients m of
        None \<Rightarrow> (Inl (KeyError ''recipients''), tr)
      | Some rcpts \<Rightarrow>
          (let tr1 = tr @ [Log INFO (''Sending email to '' @ str_nat (length rcpts) @
                                    '' recipients'')] in
           (case send_email_with_attachment e rcpts excel_data m tr1 of
              (Inl err, tr2) \<Rightarrow> (Inl err, tr2)
            | (Inr email_sent, tr2) \<Rightarrow>
                if email_sent
                then (Inr 0, tr2 @ [Log INFO ''Email sent successfully'',
                                    Print ''Report generated and sent via email successfully''])
                else (Inr 0, tr2 @ [Log ERROR ''Failed to send email'',
                                    Print ''Report generated but email sending failed'']))))"

text \<open>The other branch: the report is written to a file named after the date range.\<close>

definition save_locally ::
  "env \<Rightarrow> date \<Rightarrow> date \<Rightarrow> string \<Rightarrow> event list \<Rightarrow> (error + int) \<times> event list" where
  "save_locally e start_date end_date excel_data tr =
     (let report_filename = ''Report_'' @ env_strftime_Ymd e start_date @ ''_to_'' @
                            env_strftime_Ymd e end_date @ ''.xlsx'' in
      (case env_open_raises e tr report_filename of
         Some m \<Rightarrow> (Inl (OSError m), tr)
       | None \<Rightarrow>
           (Inr 0, tr @ [FileWrite report_filename excel_data,
              Log INFO (''Email configuration incomplete - Report saved locally as '' @
                        report_filename),
              Print (''Report generated and saved as '' @ report_filename @
                     '' (Email configuration incomplete)'')])))"

text \<open>The \<open>try\<close> block of \<open>main\<close>, from the point where the arguments are parsed.\<close>

definition main_try :: "env \<Rightarrow> (error + int) \<times> event list" where
  "main_try e =
     (let tr = [Log INFO ''Starting Reporter application'',
                Log INFO (''Loading configuration from '' @ env_config_path e)] in
      (case env_config e of Inl err \<Rightarrow> (Inl err, tr) | Inr cfg \<Rightarrow>
       (case get_date_range (env_today e) (env_args e) of
          Inl err \<Rightarrow> (Inl err, tr)
        | Inr (start_date, end_date) \<Rightarrow>
          (let tr = tr @ [Log INFO (''Generating report for period: '' @ str_date start_date @
                                    '' to '' @ str_date end_date),
                          Log INFO ''Fetching data from database''] in
           (case db cfg of None \<Rightarrow> (Inl (KeyError ''db''), tr) | Some db_config \<Rightarrow>
            (case fetch_data (env_odbc e) db_config start_date end_date tr of
               (Inl err, tr) \<Rightarrow> (Inl err, tr)
             | (Inr (Count n), tr) \<Rightarrow> (Inl (TypeError ''object of type int has no len()''), tr)
             | (Inr (Rows data), tr) \<Rightarrow>
               (let tr = tr @ [Log INFO (''Retrieved '' @ str_nat (length data) @
                                         '' records from database'')] in
                if data = []
                then (Inr 0, tr @ [Log WARNING ''No data to report for the specified period'',
                                   Print ''No data found for the specified period''])
                else
                  (let tr = tr @ [Log INFO ''Generating Excel report''] in
                   (case generate_excel_report e data of
                      Inl err \<Rightarrow> (Inl err, tr)
                    | Inr excel_data \<Rightarrow>
                      (let tr = tr @ [Log INFO (''Excel report generated, size: '' @
                                        str_nat (length excel_data) @ '' bytes'')] in
                       (case mail cfg of
                          None \<Rightarrow> save_locally e start_date end_date excel_data tr
                        | Some m \<Rightarrow>
                            if list_all (mail_has m) mail_keys
                            then deliver e m excel_data tr
                            else save_locally e start_date end_date excel_data tr)))))))))))"

definition main :: "env \<Rightarrow> int \<times> event list" where
  "main e =
     (case main_try e of
        (Inl err, tr) \<Rightarrow>
          (1, tr @ [Log ERROR (''Unexpected error: '' @ str_error err),
                    Print (''Error: '' @ str_error err)])
      | (Inr code, tr) \<Rightarrow> (code, tr))"

section \<open>Notions used to state the properties\<close>

text \<open>The parameters that \<open>exec\<close> binds: none when \<open>params\<close> is false.\<close>

definition bound_params :: "pyval list option \<Rightarrow> pyval list option" where
  "bound_params params = (if truthy_params params then params else None)"

text \<open>A list without its repetitions: each element stays at its first position.\<close>

fun first_occ :: "'a list \<Rightarrow> 'a list" where
  "first_occ [] = []"
| "first_occ (x # xs) = x # first_occ (filter (\<lambda>y. y \<noteq> x) xs)"

text \<open>The last driver call of a trace is a commit, and it did not raise.\<close>

definition committed :: "odbc \<Rightarrow> event list \<Rightarrow> bool" where
  "committed d tr = (tr \<noteq> [] \<and> last tr = DrvCommit \<and> commit_raises d (butlast tr) = None)"

text \<open>
  The last steps of \<open>ord2ymd\<close>, on their own: the month and the day of the month of the
  day with index \<open>n\<close> (from 0) in a year, leap or not.
\<close>

definition month_day :: "bool \<Rightarrow> int \<Rightarrow> int \<times> int" where
  "month_day leapyear n =
     (let mth = (n + 50) div 32;
          preceding = DAYS_BEFORE_MONTH ! nat mth + (if mth > 2 \<and> leapyear then 1 else 0)
      in if preceding > n
         then (let mth = mth - 1;
                   preceding = preceding -
                     (DAYS_IN_MONTH ! nat mth + (if mth = 2 \<and> leapyear then 1 else 0))
               in (mth, n - preceding + 1))
         else (mth, n - preceding + 1))"

text \<open>A date that the constructor accepts.\<close>

definition valid_date :: "date \<Rightarrow> bool" where
  "valid_date dt =
     (MINYEAR \<le> year dt \<and> year dt \<le> MAXYEAR \<and> 1 \<le> month dt \<and> month dt \<le> 12 \<and>
      1 \<le> day dt \<and> day dt \<le> days_in_month (year dt) (month dt))"

text \<open>
  The calendar, stated without the library's tables: the length of a month, and the first
  and the last day of the month before the month of a date.
\<close>

definition calendar_month_length :: "int \<Rightarrow> int \<Rightarrow> int" where
  "calendar_month_length y m =
     (if m = 2 then (if is_leap y then 29 else 28)
      else if m = 4 \<or> m = 6 \<or> m = 9 \<or> m = 11 then 30 else 31)"

definition prev_month_range :: "date \<Rightarrow> date \<times> date" where
  "prev_month_range today =
     (let y = (if month today = 1 then year today - 1 else year today);
          m = (if month today = 1 then 12 else month today - 1)
      in (Date y m 1, Date y m (calendar_month_length y m)))"

text \<open>Traces in which no file is written, and traces in which nothing is closed.\<close>

fun is_file_write :: "event \<Rightarrow> bool" where
  "is_file_write (FileWrite f b) = True"
| "is_file_write _ = False"

definition no_file_write :: "event list \<Rightarrow> bool" where
  "no_file_write tr = (\<not> list_ex is_file_write tr)"

definition no_close :: "event list \<Rightarrow> bool" where
  "no_close tr = (DrvCursorClose \<notin> set tr \<and> DrvConnClose \<notin> set tr)"

text \<open>A stretch of a trace in which the driver executes no statement.\<close>

definition no_execute :: "event list \<Rightarrow> bool" where
  "no_execute evs = (\<forall>q ps. DrvExecute q ps \<notin> set evs)"

text \<open>
  The log records of \<open>main\<close> up to the call of \<open>fetch_data\<close>, and those between its
  return and the call of \<open>send_email_with_attachment\<close>.
\<close>

definition log_before_fetch :: "env \<Rightarrow> date \<Rightarrow> date \<Rightarrow> event list" where
  "log_before_fetch e start_date end_date =
     [Log INFO ''Starting Reporter application'',
      Log INFO (''Loading configuration from '' @ env_config_path e),
      Log INFO (''Generating report for period: '' @ str_date start_date @
                '' to '' @ str_date end_date),
      Log INFO ''Fetching data from database'']"

definition log_before_send :: "row list \<Rightarrow> string \<Rightarrow> recipient list \<Rightarrow> event list" where
  "log_before_send data excel_data rcpts =
     [Log INFO (''Retrieved '' @ str_nat (length data) @ '' records from database''),
      Log INFO ''Generating Excel report'',
      Log INFO (''Excel report generated, size: '' @ str_nat (length excel_data) @ '' bytes''),
      Log INFO (''Sending email to '' @ str_nat (length rcpts) @ '' recipients'')]"

section \<open>Example drivers and objects\<close>

text \<open>A driver on which every call succeeds; statements have no result set.\<close>

definition quiet_driver :: odbc where
  "quiet_driver =
     \<lparr>connect_raises = (\<lambda>tr cs. None), cursor_raises = (\<lambda>tr. None),
      execute_raises = (\<lambda>tr q ps. None), cursor_description = (\<lambda>tr. None),
      fetchall_result = (\<lambda>tr. Inl ''No results.  Previous SQL was not a query.''),
      cursor_rowcount = (\<lambda>tr. 3),
      commit_raises = (\<lambda>tr. None), rollback_raises = (\<lambda>tr. None),
      cursor_close_raises = (\<lambda>tr. None), conn_close_raises = (\<lambda>tr. None)\<rparr>"

text \<open>A driver whose statements return two columns and two rows.\<close>

definition select_driver :: odbc where
  "select_driver =
     quiet_driver\<lparr>cursor_description := (\<lambda>tr. Some [(''id'', ''int''), (''name'', ''str'')]),
                  fetchall_result := (\<lambda>tr. Inr [[PInt 1, PStr ''ann''], [PInt 2, PStr ''bob'']]),
                  cursor_rowcount := (\<lambda>tr. - 1)\<rparr>"

text \<open>A driver whose statements return two columns of the same name, as a join may.\<close>

definition dup_driver :: odbc where
  "dup_driver =
     quiet_driver\<lparr>cursor_description := (\<lambda>tr. Some [(''ID'', ''int''), (''ID'', ''int'')]),
                  fetchall_result := (\<lambda>tr. Inr [[PInt 1, PInt 2]]),
                  cursor_rowcount := (\<lambda>tr. - 1)\<rparr>"

text \<open>A driver that answers the health probe and rejects every statement with parameters.\<close>

definition failing_driver :: odbc where
  "failing_driver =
     quiet_driver\<lparr>execute_raises :=
       (\<lambda>tr q ps. if ps = None then None else Some ''Invalid object name ven_operations'')\<rparr>"

text \<open>The same driver on a session that has died: the rollback raises too.\<close>

definition dead_driver :: odbc where
  "dead_driver = failing_driver\<lparr>rollback_raises := (\<lambda>tr. Some ''Communication link failure'')\<rparr>"

definition fresh_conn :: sqlconn where
  "fresh_conn =
     \<lparr>server = ''db01'', database = ''ven'', username = Some ''reporter'',
      password = Some ''secret'', trusted_connection = False,
      driver = ''ODBC Driver 17 for SQL Server'', conn = None, cursor = None\<rparr>"

definition live_conn :: sqlconn where
  "live_conn = fresh_conn\<lparr>conn := Some 0, cursor := Some 1\<rparr>"

definition no_password_conn :: sqlconn where
  "no_password_conn = fresh_conn\<lparr>password := None\<rparr>"

definition example_db_config :: db_config where
  "example_db_config =
     [''connection_data'' \<mapsto>
        [''host'' \<mapsto> Some ''db01'', ''database'' \<mapsto> Some ''ven'',
         ''user'' \<mapsto> Some ''reporter'', ''password'' \<mapsto> Some ''secret'']]"

definition march_args :: args where
  "march_args = \<lparr>last_month = False, between = Some ''2025-03-01'',
                  and_arg = Some ''2025-03-31'', config_arg = ''reporter.conf''\<rparr>"

definition last_month_args :: args where
  "last_month_args = \<lparr>last_month = True, between = None, and_arg = None,
                       config_arg = ''reporter.conf''\<rparr>"

definition reversed_args :: args where
  "reversed_args = \<lparr>last_month = False, between = Some ''2025-03-31'',
                     and_arg = Some ''2025-03-01'', config_arg = ''reporter.conf''\<rparr>"

definition example_mail :: mail_config where
  "example_mail =
     \<lparr>entries = [''api_url'' \<mapsto> ''https://mail.example.org/send'', ''api_key'' \<mapsto> ''key'',
                 ''from_email'' \<mapsto> ''reporter@example.org'', ''from_name'' \<mapsto> ''Reporter'',
                 ''subject'' \<mapsto> ''Monthly report''],
      recipients = Some [[''email'' \<mapsto> ''ops@example.org'']]\<rparr>"

definition example_rows :: "row list" where
  "example_rows = [[(''id'', PInt 1), (''name'', PStr ''ann'')],
                   [(''id'', PInt 2), (''name'', PStr ''bob'')]]"

definition failing_mail_env :: env where
  "failing_mail_env =
     \<lparr>env_args = march_args, env_config_path = ''reporter.conf'',
      env_config = Inr \<lparr>db = Some example_db_config, mail = Some example_mail\<rparr>,
      env_today = Date 2025 4 2, env_odbc = select_driver,
      env_workbook = (\<lambda>rows. Inr ''PK''),
      env_post = (\<lambda>tr url bcc_list attachment cfg. Inr 500),
      env_open_raises = (\<lambda>tr name. None),
      env_strftime_Ymd = (\<lambda>dt. filter (\<lambda>c. c \<noteq> CHR ''-'') (str_date dt))\<rparr>"


declare str_nat.simps [simp del]

section \<open>Properties of the connection manager\<close>

subsection \<open>connect\<close>

lemma connect_try_cases:
  "connect_try d (self, tr) =
     (case connection_string self of
        Inl e \<Rightarrow> (Inl e, self, tr)
      | Inr cs \<Rightarrow>
          (case connect_raises d tr cs of
             Some m \<Rightarrow> (Inl (DriverError m), self, tr @ [DrvConnect cs])
           | None \<Rightarrow>
               (case cursor_raises d (tr @ [DrvConnect cs]) of
                  Some m \<Rightarrow> (Inl (DriverError m), self\<lparr>conn := Some (length tr)\<rparr>,
                             tr @ [DrvConnect cs, DrvCursor])
                | None \<Rightarrow> (Inr True,
                            self\<lparr>conn := Some (length tr), cursor := Some (Suc (length tr))\<rparr>,
                            tr @ [DrvConnect cs, DrvCursor]))))"
  by (simp add: connect_try_def Let_def split: sum.splits option.splits)

lemma connect_True_live:
  "connect d (self, tr) = (Inr True, self', tr') \<Longrightarrow> conn self' \<noteq> None \<and> cursor self' \<noteq> None"
  by (auto simp: connect_def connect_try_cases split: sum.splits option.splits)

text \<open>Every call of \<open>connect\<close> is visible in the trace: it calls the driver or logs an error.\<close>

lemma connect_marks_trace:
  "\<exists>b self' evs. connect d (self, tr) = (Inr b, self', tr @ evs) \<and>
     ((\<exists>cs. DrvConnect cs \<in> set evs) \<or> (\<exists>m. Log ERROR m \<in> set evs))"
  by (auto simp: connect_def connect_try_cases split: sum.splits option.splits)

text \<open>
  C8. \<open>connect\<close> never raises: for every configuration, driver and trace it returns a
  boolean. The boolean is true exactly when the connection string could be built and both
  driver calls succeeded; on every failure it is false and the last event is the error log
  record. When trusted mode is off and the username or the password is missing (\<open>None\<close> or
  empty), the result is false, the object is unchanged, and the only event is the log record
  of the configuration error: no driver call is made.
\<close>

theorem connect_never_raises:
  "\<exists>b self' evs. connect d (self, tr) = (Inr b, self', tr @ evs) \<and>
     (b \<longleftrightarrow> (\<exists>cs. connection_string self = Inr cs \<and> connect_raises d tr cs = None \<and>
                    cursor_raises d (tr @ [DrvConnect cs]) = None)) \<and>
     (\<not> b \<longrightarrow> (\<exists>m. evs \<noteq> [] \<and> last evs = Log ERROR (''Failed to connect to database: '' @ m))) \<and>
     (\<not> trusted_connection self \<and> (falsy_str (username self) \<or> falsy_str (password self)) \<longrightarrow>
        \<not> b \<and> self' = self \<and>
        evs = [Log ERROR (''Failed to connect to database: '' @
                 ''Username and password are required when not using trusted connection'')])"
  by (auto simp: connect_def connect_try_cases connection_string_def Let_def
           split: sum.splits option.splits)

text \<open>The theorem at an object without a password: the result is false, with one log record.\<close>

theorem connect_never_raises_witness:
  "connect quiet_driver (no_password_conn, []) =
     (Inr False, no_password_conn,
      [Log ERROR (''Failed to connect to database: '' @
         ''Username and password are required when not using trusted connection'')])"
  using connect_never_raises [of quiet_driver no_password_conn "[]"]
  by (auto simp: no_password_conn_def fresh_conn_def falsy_str_def)

subsection \<open>Construction\<close>

text \<open>
  C4, as the claim states it, fails: constructing a manager on a driver that accepts the
  connection opens the session and the cursor at once, before any operation is invoked.
\<close>

theorem SQLConnection_lazy_counterexample:
  "SQLConnection quiet_driver ''db01'' ''ven'' (Some ''reporter'') (Some ''secret'') False
      ''ODBC Driver 17 for SQL Server'' [] =
     (Inr (), live_conn,
      [DrvConnect
         ''DRIVER={ODBC Driver 17 for SQL Server};SERVER=db01;DATABASE=ven;UID=reporter;PWD=secret;'',
       DrvCursor]) \<and>
   conn live_conn \<noteq> None \<and> cursor live_conn \<noteq> None"
  by (simp add: SQLConnection_def connect_def connect_try_cases connection_string_def
        falsy_str_def quiet_driver_def live_conn_def fresh_conn_def)

text \<open>
  C4, amended. Constructing a manager calls \<open>connect\<close> at once on the new object: the
  constructor returns the state that \<open>connect\<close> leaves. When the connection string can be
  built and the driver accepts the connection and the cursor, the new object holds a session
  and a cursor, and the driver calls are in the trace, before any operation is invoked.
\<close>

theorem SQLConnection_connects:
  "SQLConnection d srv dbn usr pwd trusted drv tr =
     (Inr (), snd (connect d (\<lparr>server = srv, database = dbn, username = usr, password = pwd,
        trusted_connection = trusted, driver = drv, conn = None, cursor = None\<rparr>, tr))) \<and>
   (\<forall>cs. connection_string \<lparr>server = srv, database = dbn, username = usr, password = pwd,
        trusted_connection = trusted, driver = drv, conn = None, cursor = None\<rparr> = Inr cs \<and>
      connect_raises d tr cs = None \<and> cursor_raises d (tr @ [DrvConnect cs]) = None \<longrightarrow>
      SQLConnection d srv dbn usr pwd trusted drv tr =
        (Inr (), \<lparr>server = srv, database = dbn, username = usr, password = pwd,
                  trusted_connection = trusted, driver = drv,
                  conn = Some (length tr), cursor = Some (Suc (length tr))\<rparr>,
         tr @ [DrvConnect cs, DrvCursor]))"
  by (auto simp: SQLConnection_def connect_def connect_try_cases Let_def
        split: sum.splits option.splits prod.splits)

theorem SQLConnection_connects_witness:
  "snd (SQLConnection quiet_driver ''db01'' ''ven'' None None True ''SQL Server'' []) =
     (\<lparr>server = ''db01'', database = ''ven'', username = None, password = None,
       trusted_connection = True, driver = ''SQL Server'', conn = Some 0, cursor = Some 1\<rparr>,
      [DrvConnect ''DRIVER={SQL Server};SERVER=db01;DATABASE=ven;Trusted_Connection=yes;'',
       DrvCursor])"
  using SQLConnection_connects [of quiet_driver "''db01''" "''ven''" None None True
      "''SQL Server''" "[]", THEN conjunct2]
  by (simp add: connection_string_def quiet_driver_def)

subsection \<open>is\_connected, reconnect\_if\_needed\<close>

lemma is_connected_True_live:
  "is_connected d (self, tr) = (Inr True, self', tr') \<Longrightarrow>
     self' = self \<and> conn self \<noteq> None \<and> cursor self \<noteq> None"
  by (auto simp: is_connected_def cursor_execute_def
      split: sum.splits prod.splits if_splits option.splits)

lemma is_connected_live:
  "conn self \<noteq> None \<Longrightarrow> cursor self \<noteq> None \<Longrightarrow>
   execute_raises d tr ''SELECT 1'' None = None \<Longrightarrow>
   is_connected d (self, tr) = (Inr True, self, tr @ [DrvExecute ''SELECT 1'' None])"
  by (auto simp: is_connected_def cursor_execute_def)

lemma reconnect_True_live:
  "reconnect_if_needed d s = (Inr True, self', tr') \<Longrightarrow>
     conn self' \<noteq> None \<and> cursor self' \<noteq> None"
  unfolding reconnect_if_needed_def
  by (cases s)
     (auto split: prod.splits sum.splits bool.splits
           dest: is_connected_True_live connect_True_live)

text \<open>
  C9. On a live session (the object holds a session and a cursor, and the driver answers the
  health probe both times) two calls of \<open>reconnect_if_needed\<close> in a row both return true,
  leave the object as it was, and add to the trace nothing but the two probes: \<open>connect\<close>,
  which would call the driver's connect or log an error, is not invoked.
\<close>

theorem reconnect_if_needed_idempotent:
  assumes "conn self \<noteq> None" and "cursor self \<noteq> None"
    and "execute_raises d tr ''SELECT 1'' None = None"
    and "execute_raises d (tr @ [DrvExecute ''SELECT 1'' None]) ''SELECT 1'' None = None"
  shows "reconnect_if_needed d (self, tr) =
           (Inr True, self, tr @ [DrvExecute ''SELECT 1'' None]) \<and>
         reconnect_if_needed d (self, tr @ [DrvExecute ''SELECT 1'' None]) =
           (Inr True, self, tr @ [DrvExecute ''SELECT 1'' None, DrvExecute ''SELECT 1'' None])"
  using assms by (simp add: reconnect_if_needed_def is_connected_live)

theorem reconnect_if_needed_idempotent_witness:
  "reconnect_if_needed quiet_driver (live_conn, []) =
     (Inr True, live_conn, [DrvExecute ''SELECT 1'' None]) \<and>
   reconnect_if_needed quiet_driver (live_conn, [DrvExecute ''SELECT 1'' None]) =
     (Inr True, live_conn, [DrvExecute ''SELECT 1'' None, DrvExecute ''SELECT 1'' None])"
  using reconnect_if_needed_idempotent [of live_conn quiet_driver "[]"]
  by (simp add: live_conn_def fresh_conn_def quiet_driver_def)

subsection \<open>exec: the error path\<close>

lemma exec_live:
  "reconnect_if_needed d s = (Inr True, s1) \<Longrightarrow>
   exec d script params s =
     (case exec_try d script params s1 of
        (Inr r, s2) \<Rightarrow> (Inr r, s2)
      | (Inl e, s2) \<Rightarrow>
          (case conn_rollback d s2 of
             (Inl e', s3) \<Rightarrow> (Inl e', s3)
           | (Inr u, self3, tr3) \<Rightarrow>
               (Inl e, self3, tr3 @ [Log ERROR (''Error executing SQL script: '' @ str_error e)])))"
  by (simp add: exec_def)

lemma exec_try_execute_raises:
  "cursor self \<noteq> None \<Longrightarrow> execute_raises d tr script (bound_params params) = Some m \<Longrightarrow>
   exec_try d script params (self, tr) =
     (Inl (DriverError m), self, tr @ [DrvExecute script (bound_params params)])"
  by (auto simp: exec_try_def cursor_execute_def bound_params_def)

lemma conn_rollback_live:
  "conn self \<noteq> None \<Longrightarrow>
   conn_rollback d (self, tr) =
     (case rollback_raises d tr of
        Some m \<Rightarrow> (Inl (DriverError m), self, tr @ [DrvRollback])
      | None \<Rightarrow> (Inr (), self, tr @ [DrvRollback]))"
  by (auto simp: conn_rollback_def)

text \<open>
  C5, as the claim states it, fails: on a session that has died, the statement raises, the
  rollback raises as well, and \<open>exec\<close> then raises the error of the rollback, not the
  error of the statement, and writes no log record.
\<close>

theorem exec_rollback_raises_counterexample:
  "reconnect_if_needed dead_driver (live_conn, []) =
     (Inr True, live_conn, [DrvExecute ''SELECT 1'' None]) \<and>
   execute_raises dead_driver [DrvExecute ''SELECT 1'' None]
     ''DELETE FROM ven_operations WHERE ID = ?'' (Some [PInt 7]) =
     Some ''Invalid object name ven_operations'' \<and>
   exec dead_driver ''DELETE FROM ven_operations WHERE ID = ?'' (Some [PInt 7]) (live_conn, []) =
     (Inl (DriverError ''Communication link failure''), live_conn,
      [DrvExecute ''SELECT 1'' None,
       DrvExecute ''DELETE FROM ven_operations WHERE ID = ?'' (Some [PInt 7]),
       DrvRollback]) \<and>
   DriverError ''Communication link failure'' \<noteq> DriverError ''Invalid object name ven_operations''"
  by (simp add: exec_def reconnect_if_needed_def is_connected_live exec_try_def
        truthy_params_def cursor_execute_def conn_rollback_def
        dead_driver_def failing_driver_def quiet_driver_def live_conn_def fresh_conn_def)

text \<open>
  C5, amended. When \<open>reconnect_if_needed\<close> has ensured a live session and the driver
  then raises on executing the statement, \<open>exec\<close> raises: the failure is not swallowed.
  The driver calls after the liveness check are the failed execute and then the rollback; no
  commit is made. When the rollback itself does not raise, the error raised is the driver's
  error of the statement, after the log record.
\<close>

theorem exec_error_rolls_back:
  assumes live: "reconnect_if_needed d s = (Inr True, self1, tr1)"
    and raises: "execute_raises d tr1 script (bound_params params) = Some m"
  shows "\<exists>err evs. exec d script params s =
            (Inl err, self1, tr1 @ [DrvExecute script (bound_params params), DrvRollback] @ evs) \<and>
          DrvCommit \<notin> set evs \<and>
          (rollback_raises d (tr1 @ [DrvExecute script (bound_params params)]) = None \<longrightarrow>
             err = DriverError m \<and> evs = [Log ERROR (''Error executing SQL script: '' @ m)])"
proof -
  from reconnect_True_live [OF live] have c: "conn self1 \<noteq> None" "cursor self1 \<noteq> None"
    by simp_all
  show ?thesis
    by (simp add: exec_live [OF live] exec_try_execute_raises [OF c(2) raises]
          conn_rollback_live [OF c(1)] split: option.splits)
qed

theorem exec_error_rolls_back_witness:
  "exec failing_driver ''DELETE FROM ven_operations WHERE ID = ?'' (Some [PInt 7]) (live_conn, []) =
     (Inl (DriverError ''Invalid object name ven_operations''), live_conn,
      [DrvExecute ''SELECT 1'' None,
       DrvExecute ''DELETE FROM ven_operations WHERE ID = ?'' (Some [PInt 7]),
       DrvRollback,
       Log ERROR (''Error executing SQL script: '' @ ''Invalid object name ven_operations'')])"
  using exec_error_rolls_back [of failing_driver "(live_conn, [])" live_conn
      "[DrvExecute ''SELECT 1'' None]" "''DELETE FROM ven_operations WHERE ID = ?''"
      "Some [PInt 7]" "''Invalid object name ven_operations''"]
  by (auto simp: reconnect_if_needed_def is_connected_live bound_params_def truthy_params_def
        failing_driver_def quiet_driver_def live_conn_def fresh_conn_def)

subsection \<open>exec: the shape of the result\<close>

lemma filter_neq_notin: "a \<notin> set xs \<Longrightarrow> filter (\<lambda>y. y \<noteq> a) xs = xs"
  by (induction xs) auto

lemma first_occ_distinct: "distinct xs \<Longrightarrow> first_occ xs = xs"
  by (induction xs) (simp_all add: filter_neq_notin)

lemma set_first_occ: "set (first_occ xs) = set xs"
  by (induction xs rule: first_occ.induct) auto

lemma distinct_first_occ: "distinct (first_occ xs)"
  by (induction xs rule: first_occ.induct) (auto simp: set_first_occ)

lemma keys_dict_set:
  "map fst (dict_set m k v) = (if k \<in> set (map fst m) then map fst m else map fst m @ [k])"
  by (induction m) (force simp: image_iff)+

lemma map_of_dict_set: "map_of (dict_set m k v) = (map_of m)(k \<mapsto> v)"
  by (induction m) (auto simp: fun_eq_iff)

text \<open>
  The comprehension on a row that is not longer than the column list: the keys are the
  column names used, each at its first position, and a name holds the value of the last
  column that carries it.
\<close>

lemma row_dict_keys:
  "i + length vs \<le> length columns \<Longrightarrow>
   \<exists>m. row_dict columns i vs acc = Inr m \<and>
       map fst m = map fst acc @
         first_occ (filter (\<lambda>k. k \<notin> set (map fst acc)) (take (length vs) (drop i columns))) \<and>
       map_of m = map_of acc ++ map_of (rev (zip (drop i columns) vs))"
proof (induction vs arbitrary: i acc)
  case Nil
  then show ?case by simp
next
  case (Cons v vs)
  then have i: "i < length columns" and le: "Suc i + length vs \<le> length columns"
    by simp_all
  have dr: "drop i columns = columns ! i # drop (Suc i) columns"
    using i by (simp add: Cons_nth_drop_Suc)
  from Cons.IH [OF le, of "dict_set acc (columns ! i) v"]
  obtain m where m: "row_dict columns (Suc i) vs (dict_set acc (columns ! i) v) = Inr m"
    and k: "map fst m = map fst (dict_set acc (columns ! i) v) @
         first_occ (filter (\<lambda>k. k \<notin> set (map fst (dict_set acc (columns ! i) v)))
            (take (length vs) (drop (Suc i) columns)))"
    and v: "map_of m = map_of (dict_set acc (columns ! i) v) ++
              map_of (rev (zip (drop (Suc i) columns) vs))"
    by blast
  have f: "filter (\<lambda>y. y \<noteq> c) (filter (\<lambda>k. k \<notin> A) xs) = filter (\<lambda>k. k \<noteq> c \<and> k \<notin> A) xs"
    for c :: string and A xs
    by (induction xs) auto
  have k': "map fst m = map fst acc @
         first_occ (filter (\<lambda>k. k \<notin> set (map fst acc)) (take (length (v # vs)) (drop i columns)))"
    unfolding k dr
    by (auto simp: keys_dict_set f intro!: arg_cong [where f = first_occ] filter_cong)
  have v': "map_of m = map_of acc ++ map_of (rev (zip (drop i columns) (v # vs)))"
    unfolding v dr by (simp add: map_of_dict_set fun_eq_iff map_add_def split: option.splits)
  show ?case using i m k' v' by simp
qed

lemma row_dict_ok:
  "length r \<le> length columns \<Longrightarrow>
   \<exists>m. row_dict columns 0 r [] = Inr m \<and> map fst m = first_occ (take (length r) columns) \<and>
       map_of m = map_of (rev (zip columns r))"
  using row_dict_keys [of 0 r columns "[]"] by simp

lemma build_results_ok:
  "\<forall>r\<in>set fetched. length r \<le> length columns \<Longrightarrow>
   \<exists>ms. build_results columns fetched results = Inr (results @ ms) \<and>
        list_all2 (\<lambda>r m. row_dict columns 0 r [] = Inr m) fetched ms"
proof (induction fetched arbitrary: results)
  case Nil
  then show ?case by simp
next
  case (Cons r rs)
  then obtain m where m: "row_dict columns 0 r [] = Inr m"
    using row_dict_ok [of r columns] by auto
  from Cons obtain ms where "build_results columns rs (results @ [m]) = Inr ((results @ [m]) @ ms)"
      "list_all2 (\<lambda>r m. row_dict columns 0 r [] = Inr m) rs ms"
    by (metis list.set_intros(2))
  then show ?case using m by (intro exI [of _ "m # ms"]) simp
qed

lemma exec_try_executed:
  "cursor self \<noteq> None \<Longrightarrow> execute_raises d tr script (bound_params params) = None \<Longrightarrow>
   exec_try d script params (self, tr) =
     (case exec_fetch d (self, tr @ [DrvExecute script (bound_params params)]) of
        (Inr r, s2) \<Rightarrow> (Inr r, s2)
      | (Inl e, s2) \<Rightarrow> exec_count d s2)"
  by (auto simp: exec_try_def cursor_execute_def bound_params_def)

lemma exec_fetch_rows:
  assumes "conn self \<noteq> None" and "cursor self \<noteq> None"
    and "cursor_description d tr = Some desc" and "fetchall_result d tr = Inr fetched"
    and len: "\<forall>r\<in>set fetched. length r \<le> length desc"
    and "commit_raises d (tr @ [DrvFetchall]) = None"
  shows "\<exists>rs. exec_fetch d (self, tr) = (Inr (Rows rs), self, tr @ [DrvFetchall, DrvCommit]) \<and>
              list_all2 (\<lambda>r m. row_dict (map fst desc) 0 r [] = Inr m) fetched rs"
proof -
  from len have "\<forall>r\<in>set fetched. length r \<le> length (map fst desc)" by simp
  from build_results_ok [OF this, of "[]"]
  obtain rs where "build_results (map fst desc) fetched [] = Inr rs"
    and "list_all2 (\<lambda>r m. row_dict (map fst desc) 0 r [] = Inr m) fetched rs"
    by auto
  with assms show ?thesis
    by (auto simp: exec_fetch_def conn_commit_def)
qed

lemma exec_fetch_no_description:
  "cursor self \<noteq> None \<Longrightarrow> cursor_description d tr = None \<Longrightarrow>
   \<exists>e. exec_fetch d (self, tr) = (Inl e, self, tr)"
  by (auto simp: exec_fetch_def)

lemma exec_count_ok:
  "conn self \<noteq> None \<Longrightarrow> cursor self \<noteq> None \<Longrightarrow> commit_raises d tr = None \<Longrightarrow>
   exec_count d (self, tr) = (Inr (Count (cursor_rowcount d tr)), self, tr @ [DrvCommit])"
  by (auto simp: exec_count_def conn_commit_def)

text \<open>Whenever a step of \<open>exec\<close> returns normally, the last event is a commit that succeeded.\<close>

lemma conn_commit_committed:
  "conn_commit d s = (Inr u, self', tr') \<Longrightarrow> committed d tr'"
  by (cases s) (auto simp: conn_commit_def committed_def split: option.splits)

lemma exec_fetch_committed:
  "exec_fetch d s = (Inr r, self', tr') \<Longrightarrow> committed d tr'"
  by (cases s)
     (auto simp: exec_fetch_def Let_def split: option.splits sum.splits prod.splits
           dest: conn_commit_committed)

lemma exec_count_committed:
  "exec_count d s = (Inr r, self', tr') \<Longrightarrow> committed d tr'"
  by (cases s)
     (auto simp: exec_count_def Let_def split: option.splits sum.splits prod.splits
           dest: conn_commit_committed)

lemma exec_try_committed:
  "exec_try d script params s = (Inr r, self', tr') \<Longrightarrow> committed d tr'"
  unfolding exec_try_def
  by (auto split: prod.splits sum.splits if_splits
           dest: exec_fetch_committed exec_count_committed)

lemma exec_committed:
  "exec d script params s = (Inr r, self', tr') \<Longrightarrow> committed d tr'"
  unfolding exec_def
  by (auto split: prod.splits sum.splits bool.splits dest: exec_try_committed)

text \<open>
  C2, as the claim states it, fails: on a statement whose description names two columns
  \<open>ID\<close>, \<open>exec\<close> returns one mapping per row, but the mapping has the single key
  \<open>ID\<close> (holding the value of the second column), not the two column names.
\<close>

theorem exec_keys_counterexample:
  "cursor_description dup_driver [DrvExecute ''SELECT 1'' None, DrvExecute ''SELECT a.ID, b.ID FROM a, b'' None] =
     Some [(''ID'', ''int''), (''ID'', ''int'')] \<and>
   exec dup_driver ''SELECT a.ID, b.ID FROM a, b'' None (live_conn, []) =
     (Inr (Rows [[(''ID'', PInt 2)]]), live_conn,
      [DrvExecute ''SELECT 1'' None, DrvExecute ''SELECT a.ID, b.ID FROM a, b'' None,
       DrvFetchall, DrvCommit]) \<and>
   map fst [(''ID'', PInt 2)] \<noteq> map fst [(''ID'', ''int''), (''ID'', ''int'')]"
  by (simp add: exec_def reconnect_if_needed_def is_connected_live exec_try_def
        truthy_params_def cursor_execute_def exec_fetch_def conn_commit_def
        dup_driver_def quiet_driver_def live_conn_def fresh_conn_def)

text \<open>
  C2, amended. Let \<open>exec\<close> run on a session that \<open>reconnect_if_needed\<close> found or made
  live, and let the driver execute the statement without error. If the statement has a column
  description, the rows are fetched without error, every row has as many values as there are
  columns, and the commit succeeds, then \<open>exec\<close> returns a list of row mappings, one per
  fetched row in the order fetched; the keys of each mapping are the column names in column
  order, a repeated name appearing once at its first position and holding the value of the
  last column of that name. If the statement has no column description and the commit
  succeeds, \<open>exec\<close> returns the affected-row count. Whenever \<open>exec\<close> returns a
  result, the last driver call before it returns is a commit that succeeded.
\<close>

theorem exec_result_shape:
  assumes live: "reconnect_if_needed d s = (Inr True, self1, tr1)"
    and executed: "execute_raises d tr1 script (bound_params params) = None"
    and tr2: "tr2 = tr1 @ [DrvExecute script (bound_params params)]"
  shows
    "(\<forall>desc fetched.
        cursor_description d tr2 = Some desc \<and> fetchall_result d tr2 = Inr fetched \<and>
        (\<forall>r\<in>set fetched. length r = length desc) \<and>
        commit_raises d (tr2 @ [DrvFetchall]) = None \<longrightarrow>
        (\<exists>rs. exec d script params s = (Inr (Rows rs), self1, tr2 @ [DrvFetchall, DrvCommit]) \<and>
           length rs = length fetched \<and>
           (\<forall>i<length rs. map fst (rs ! i) = first_occ (map fst desc) \<and>
              map_of (rs ! i) = map_of (rev (zip (map fst desc) (fetched ! i)))))) \<and>
     (cursor_description d tr2 = None \<and> commit_raises d tr2 = None \<longrightarrow>
        exec d script params s = (Inr (Count (cursor_rowcount d tr2)), self1, tr2 @ [DrvCommit])) \<and>
     (\<forall>r self' tr'. exec d script params s = (Inr r, self', tr') \<longrightarrow> committed d tr')"
proof -
  from reconnect_True_live [OF live] have c: "conn self1 \<noteq> None" "cursor self1 \<noteq> None"
    by simp_all
  note ex = exec_live [OF live] exec_try_executed [OF c(2) executed, folded tr2]
  have rows: "\<exists>rs. exec d script params s = (Inr (Rows rs), self1, tr2 @ [DrvFetchall, DrvCommit]) \<and>
           length rs = length fetched \<and>
           (\<forall>i<length rs. map fst (rs ! i) = first_occ (map fst desc) \<and>
              map_of (rs ! i) = map_of (rev (zip (map fst desc) (fetched ! i))))"
    if d: "cursor_description d tr2 = Some desc" and f: "fetchall_result d tr2 = Inr fetched"
      and len: "\<forall>r\<in>set fetched. length r = length desc"
      and cm: "commit_raises d (tr2 @ [DrvFetchall]) = None" for desc fetched
  proof -
    from len have le: "\<forall>r\<in>set fetched. length r \<le> length desc" by simp
    from exec_fetch_rows [OF c d f le cm] obtain rs
      where rs: "exec_fetch d (self1, tr2) = (Inr (Rows rs), self1, tr2 @ [DrvFetchall, DrvCommit])"
        and all: "list_all2 (\<lambda>r m. row_dict (map fst desc) 0 r [] = Inr m) fetched rs"
      by blast
    have "map fst (rs ! i) = first_occ (map fst desc) \<and>
          map_of (rs ! i) = map_of (rev (zip (map fst desc) (fetched ! i)))"
      if i: "i < length rs" for i
    proof -
      from all i have r: "row_dict (map fst desc) 0 (fetched ! i) [] = Inr (rs ! i)"
        and fi: "fetched ! i \<in> set fetched"
        by (auto simp: list_all2_conv_all_nth)
      from fi len have l: "length (fetched ! i) = length desc" by blast
      from row_dict_ok [of "fetched ! i" "map fst desc"] l r show ?thesis by auto
    qed
    with rs all show ?thesis by (auto simp: ex dest: list_all2_lengthD)
  qed
  have count: "exec d script params s = (Inr (Count (cursor_rowcount d tr2)), self1, tr2 @ [DrvCommit])"
    if d: "cursor_description d tr2 = None" and cm: "commit_raises d tr2 = None"
    using exec_fetch_no_description [OF c(2) d] exec_count_ok [OF c cm]
    by (auto simp: ex)
  from rows count exec_committed show ?thesis by blast
qed

text \<open>
  The theorem on a statement with two columns and two rows: two mappings, each with the
  keys \<open>id\<close>, \<open>name\<close>.
\<close>

theorem exec_result_shape_witness:
  "\<exists>rs. exec select_driver ''SELECT id, name FROM ven_users'' None (live_conn, []) =
          (Inr (Rows rs), live_conn,
           [DrvExecute ''SELECT 1'' None, DrvExecute ''SELECT id, name FROM ven_users'' None,
            DrvFetchall, DrvCommit]) \<and>
        length rs = 2 \<and> map fst (rs ! 0) = [''id'', ''name''] \<and>
        map fst (rs ! 1) = [''id'', ''name'']"
  using exec_result_shape [of select_driver "(live_conn, [])" live_conn
      "[DrvExecute ''SELECT 1'' None]" "''SELECT id, name FROM ven_users''" None
      "[DrvExecute ''SELECT 1'' None, DrvExecute ''SELECT id, name FROM ven_users'' None]",
      THEN conjunct1]
  by (auto simp: reconnect_if_needed_def is_connected_live bound_params_def truthy_params_def
        select_driver_def quiet_driver_def live_conn_def fresh_conn_def)

subsection \<open>exec: parameter dispatch\<close>

lemma exec_try_empty_params: "exec_try d script (Some []) s = exec_try d script None s"
  by (simp add: exec_try_def truthy_params_def)

lemma no_execute_simps [simp]:
  "no_execute []"
  "no_execute (ev # evs) = ((\<forall>q ps. ev \<noteq> DrvExecute q ps) \<and> no_execute evs)"
  "no_execute (xs @ ys) = (no_execute xs \<and> no_execute ys)"
  by (auto simp: no_execute_def)

lemma conn_commit_events:
  "conn_commit d (self, tr) = (r, self', tr') \<Longrightarrow> \<exists>evs. tr' = tr @ evs \<and> no_execute evs"
  by (auto simp: conn_commit_def split: option.splits)

lemma conn_rollback_events:
  "conn_rollback d (self, tr) = (r, self', tr') \<Longrightarrow> \<exists>evs. tr' = tr @ evs \<and> no_execute evs"
  by (auto simp: conn_rollback_def split: option.splits)

lemma exec_fetch_events:
  "exec_fetch d (self, tr) = (r, self', tr') \<Longrightarrow> \<exists>evs. tr' = tr @ evs \<and> no_execute evs"
  by (auto simp: exec_fetch_def Let_def split: option.splits sum.splits prod.splits
      dest!: conn_commit_events)

lemma exec_count_events:
  "exec_count d (self, tr) = (r, self', tr') \<Longrightarrow> \<exists>evs. tr' = tr @ evs \<and> no_execute evs"
  by (auto simp: exec_count_def Let_def split: option.splits sum.splits prod.splits
      dest!: conn_commit_events)

lemma exec_try_events:
  assumes c: "cursor self \<noteq> None"
    and e: "exec_try d script params (self, tr) = (r, self', tr')"
  shows "\<exists>evs. tr' = tr @ DrvExecute script (bound_params params) # evs \<and> no_execute evs"
proof (cases "execute_raises d tr script (bound_params params)")
  case (Some m)
  from e show ?thesis unfolding exec_try_execute_raises [OF c Some] by auto
next
  case None
  let ?tr2 = "tr @ [DrvExecute script (bound_params params)]"
  obtain r1 self1 tr1 where f: "exec_fetch d (self, ?tr2) = (r1, self1, tr1)"
    by (metis prod_cases3)
  from exec_fetch_events [OF f] obtain evs1 where t1: "tr1 = ?tr2 @ evs1" "no_execute evs1"
    by blast
  show ?thesis
  proof (cases r1)
    case (Inr res)
    with e f t1 show ?thesis unfolding exec_try_executed [OF c None] by auto
  next
    case (Inl err)
    with e f have "exec_count d (self1, tr1) = (r, self', tr')"
      unfolding exec_try_executed [OF c None] by simp
    from exec_count_events [OF this] t1 show ?thesis by auto
  qed
qed

lemma exec_events:
  assumes live: "reconnect_if_needed d s = (Inr True, self1, tr1)"
  shows "\<exists>r self2 evs. exec d script params s =
            (r, self2, tr1 @ DrvExecute script (bound_params params) # evs) \<and> no_execute evs"
proof -
  from reconnect_True_live [OF live] have c: "cursor self1 \<noteq> None" by simp
  obtain r2 self2 tr2 where t: "exec_try d script params (self1, tr1) = (r2, self2, tr2)"
    by (metis prod_cases3)
  from exec_try_events [OF c t] obtain evs where
    tr2: "tr2 = tr1 @ DrvExecute script (bound_params params) # evs" and ne: "no_execute evs"
    by blast
  show ?thesis
  proof (cases r2)
    case (Inr res)
    with t tr2 ne show ?thesis by (simp add: exec_live [OF live])
  next
    case (Inl err)
    obtain r3 self3 tr3 where rb: "conn_rollback d (self2, tr2) = (r3, self3, tr3)"
      by (metis prod_cases3)
    from conn_rollback_events [OF rb] obtain evs' where "tr3 = tr2 @ evs'" "no_execute evs'"
      by blast
    with Inl t tr2 ne rb show ?thesis
      by (cases r3) (auto simp: exec_live [OF live])
  qed
qed

text \<open>
  C10. Calling \<open>exec\<close> with an empty parameter sequence behaves exactly as calling it with
  no parameters: result, final object and trace are the same. On a session that
  \<open>reconnect_if_needed\<close> found or made live, the statement is executed without
  parameter binding: the next driver call is the execute of the script with no parameters,
  and no other statement is executed after it. The dispatch tests the truthiness of
  \<open>params\<close>, for which the empty sequence is false.
\<close>

theorem exec_empty_params:
  "exec d script (Some []) s = exec d script None s \<and>
   (\<forall>self1 tr1. reconnect_if_needed d s = (Inr True, self1, tr1) \<longrightarrow>
      (\<exists>r self2 evs. exec d script (Some []) s = (r, self2, tr1 @ DrvExecute script None # evs) \<and>
         no_execute evs))"
proof -
  have eq: "exec d script (Some []) s = exec d script None s"
    unfolding exec_def exec_try_empty_params ..
  have "\<exists>r self2 evs. exec d script (Some []) s = (r, self2, tr1 @ DrvExecute script None # evs) \<and>
         no_execute evs"
    if "reconnect_if_needed d s = (Inr True, self1, tr1)" for self1 tr1
    using exec_events [OF that, of script "Some []"]
    by (simp add: bound_params_def truthy_params_def)
  with eq show ?thesis by blast
qed

theorem exec_empty_params_witness:
  "exec quiet_driver ''UPDATE ven_users SET emp_id = 0'' (Some []) (live_conn, []) =
     exec quiet_driver ''UPDATE ven_users SET emp_id = 0'' None (live_conn, []) \<and>
   (\<exists>r self2 evs. exec quiet_driver ''UPDATE ven_users SET emp_id = 0'' (Some []) (live_conn, []) =
      (r, self2, [DrvExecute ''SELECT 1'' None] @
                 DrvExecute ''UPDATE ven_users SET emp_id = 0'' None # evs) \<and> no_execute evs)"
proof -
  have live: "reconnect_if_needed quiet_driver (live_conn, []) =
      (Inr True, live_conn, [DrvExecute ''SELECT 1'' None])"
    by (simp add: reconnect_if_needed_def is_connected_live quiet_driver_def live_conn_def
          fresh_conn_def)
  note r = exec_empty_params [of quiet_driver "''UPDATE ven_users SET emp_id = 0''"
      "(live_conn, [])"]
  from r [THEN conjunct1] r [THEN conjunct2, rule_format, OF live] show ?thesis
    by (rule conjI)
qed

section \<open>Properties of the date range resolver\<close>

subsection \<open>Explicit range\<close>

lemma date_new_error: "date_new y m d = Inl err \<Longrightarrow> \<exists>msg. err = ValueError msg"
  by (auto simp: date_new_def split: if_splits)

lemma strptime_Ymd_error: "strptime_Ymd s = Inl err \<Longrightarrow> \<exists>msg. err = ValueError msg"
  by (auto simp: strptime_Ymd_def split: list.splits prod.splits if_splits dest: date_new_error)

text \<open>The parser on some strings: one-digit fields are accepted, trailing text is not.\<close>

lemma strptime_examples:
  "strptime_Ymd ''2025-1-5'' = Inr (Date 2025 1 5)"
  "strptime_Ymd ''2024-02-29'' = Inr (Date 2024 2 29)"
  "strptime_Ymd ''2025-02-29'' = Inl (ValueError ''day is out of range for month'')"
  "strptime_Ymd ''2025-13-01'' =
     Inl (ValueError ''time data 2025-13-01 does not match format %Y-%m-%d'')"
  "strptime_Ymd ''2025-03-011'' = Inl (ValueError ''unconverted data remains: 1'')"
  "strptime_Ymd ''0000-01-01'' = Inl (ValueError ''year is out of range'')"
  "strptime_Ymd ''01/03/2025'' =
     Inl (ValueError ''time data 01/03/2025 does not match format %Y-%m-%d'')"
  by (simp_all add: strptime_Ymd_def match_Ymd_def match_m_def match_d_def match_lit_def
        is_digit_def in_range_def digit_val_def date_new_def MINYEAR_def MAXYEAR_def
        days_in_month_def DAYS_IN_MONTH_def is_leap_def)

text \<open>
  C6. In explicit-range mode, on two date strings: if both parse as dates and the start is
  not after the end, the resolver returns exactly the two parsed dates; if either string
  fails to parse, or the parsed start is strictly after the parsed end, it fails with a
  \<open>ValueError\<close>, the validation error of the source.
\<close>

theorem get_date_range_explicit:
  assumes "\<not> last_month a" and "between a = Some s" and "and_arg a = Some e"
  shows "(\<forall>d1 d2. strptime_Ymd s = Inr d1 \<and> strptime_Ymd e = Inr d2 \<and> date_le d1 d2 \<longrightarrow>
            get_date_range today a = Inr (d1, d2)) \<and>
         ((\<exists>err. strptime_Ymd s = Inl err) \<or> (\<exists>err. strptime_Ymd e = Inl err) \<or>
          (\<exists>d1 d2. strptime_Ymd s = Inr d1 \<and> strptime_Ymd e = Inr d2 \<and> date_gt d1 d2) \<longrightarrow>
            (\<exists>msg. get_date_range today a = Inl (ValueError msg)))"
  using assms
  by (auto simp: get_date_range_def range_try_def strptime_arg_def date_le_def
           split: sum.splits error.splits dest: strptime_Ymd_error)

lemma strptime_0301: "strptime_Ymd ''2025-03-01'' = Inr (Date 2025 3 1)"
  by (simp add: strptime_Ymd_def match_Ymd_def match_m_def match_d_def match_lit_def
        is_digit_def in_range_def digit_val_def date_new_def MINYEAR_def MAXYEAR_def
        days_in_month_def DAYS_IN_MONTH_def)

lemma strptime_0331: "strptime_Ymd ''2025-03-31'' = Inr (Date 2025 3 31)"
  by (simp add: strptime_Ymd_def match_Ymd_def match_m_def match_d_def match_lit_def
        is_digit_def in_range_def digit_val_def date_new_def MINYEAR_def MAXYEAR_def
        days_in_month_def DAYS_IN_MONTH_def)

theorem get_date_range_explicit_witness:
  "get_date_range (Date 2025 4 2) march_args = Inr (Date 2025 3 1, Date 2025 3 31) \<and>
   (\<exists>msg. get_date_range (Date 2025 4 2) reversed_args = Inl (ValueError msg))"
  using get_date_range_explicit [of march_args "''2025-03-01''" "''2025-03-31''" "Date 2025 4 2"]
    get_date_range_explicit [of reversed_args "''2025-03-31''" "''2025-03-01''" "Date 2025 4 2"]
  by (simp add: march_args_def reversed_args_def strptime_0301 strptime_0331 date_le_def date_gt_def)

subsection \<open>Ordinals: from a day of the year to month and day\<close>

lemma divmod_uniq:
  fixes D q r :: int
  assumes "0 \<le> r" "r < D"
  shows "(q * D + r) div D = q" and "(q * D + r) mod D = r"
  using assms by simp_all

lemma divmod_uniq':
  fixes D q r :: int
  assumes "0 \<le> r" "r < D"
  shows "(D * q + r) div D = q" and "(D * q + r) mod D = r"
  using assms by simp_all

lemma month_cases:
  "1 \<le> m \<Longrightarrow> m \<le> 12 \<Longrightarrow>
   m = 1 \<or> m = 2 \<or> m = 3 \<or> m = 4 \<or> m = 5 \<or> m = 6 \<or> m = 7 \<or> m = 8 \<or> m = 9 \<or> m = 10 \<or>
   m = 11 \<or> m = (12::int)"
  by arith

lemma month_day_range:
  assumes m: "1 \<le> m" "m \<le> 12"
    and lo: "DAYS_BEFORE_MONTH ! nat m + (if m > 2 \<and> lp then 1 else 0) \<le> n"
    and hi: "n < DAYS_BEFORE_MONTH ! nat m + (if m > 2 \<and> lp then 1 else 0) +
                 (if m = 2 \<and> lp then 29 else DAYS_IN_MONTH ! nat m)"
  shows "month_day lp n = (m, n - (DAYS_BEFORE_MONTH ! nat m + (if m > 2 \<and> lp then 1 else 0)) + 1)"
proof -
  note tables = DAYS_BEFORE_MONTH_def DAYS_IN_MONTH_def
  have q: "(n + 50) div 32 = m \<or> (n + 50) div 32 = m + 1"
    using month_cases [OF m] lo hi
    by (elim disjE; cases lp; simp add: tables; arith)
  show ?thesis
    using month_cases [OF m] q lo hi
    by (elim disjE; cases lp; simp add: month_day_def Let_def tables)
qed

lemma month_day_correct:
  assumes "1 \<le> m" "m \<le> 12" "1 \<le> d"
    and "d \<le> (if m = 2 \<and> lp then 29 else DAYS_IN_MONTH ! nat m)"
  shows "month_day lp (DAYS_BEFORE_MONTH ! nat m + (if m > 2 \<and> lp then 1 else 0) + d - 1) = (m, d)"
  using month_day_range [OF assms(1,2), of lp
      "DAYS_BEFORE_MONTH ! nat m + (if m > 2 \<and> lp then 1 else 0) + d - 1"] assms(3,4)
  by simp

subsection \<open>Ordinals: the year\<close>

lemma DI_values: "DI400Y = 146097" "DI100Y = 36524" "DI4Y = 1461"
  by (simp_all add: DI400Y_def DI100Y_def DI4Y_def days_before_year_def)

lemma year_decomp:
  fixes Y :: int
  assumes "0 \<le> Y"
  obtains a b c e where "Y = 400 * a + 100 * b + 4 * c + e"
    "0 \<le> a" "0 \<le> b" "b < 4" "0 \<le> c" "c < 25" "0 \<le> e" "e < 4"
proof
  have r100: "Y mod 400 mod 100 = Y mod 100" by (simp add: mod_mod_cancel)
  have r4: "Y mod 100 mod 4 = Y mod 4" by (simp add: mod_mod_cancel)
  have "Y = 400 * (Y div 400) + Y mod 400" by simp
  also have "Y mod 400 = 100 * (Y mod 400 div 100) + Y mod 400 mod 100" by simp
  also have "Y mod 400 mod 100 = 4 * (Y mod 100 div 4) + Y mod 100 mod 4"
    unfolding r100 by simp
  finally show "Y = 400 * (Y div 400) + 100 * (Y mod 400 div 100) + 4 * (Y mod 100 div 4) + Y mod 4"
    unfolding r4 by simp
  show "0 \<le> Y div 400" using assms by simp
  show "0 \<le> Y mod 400 div 100" by simp
  have "0 \<le> r \<Longrightarrow> r < 400 \<Longrightarrow> r div 100 < 4" for r :: int by arith
  then show "Y mod 400 div 100 < 4" by simp
  show "0 \<le> Y mod 100 div 4" by simp
  have "0 \<le> r \<Longrightarrow> r < 100 \<Longrightarrow> r div 4 < 25" for r :: int by arith
  then show "Y mod 100 div 4 < 25" by simp
  show "0 \<le> Y mod 4" by simp
  show "Y mod 4 < 4" by simp
qed

lemma dby_decomp:
  assumes "0 \<le> b" "b < 4" "0 \<le> c" "c < 25" "0 \<le> e" "e < (4::int)"
  shows "days_before_year (400 * a + 100 * b + 4 * c + e + 1) =
           146097 * a + 36524 * b + 1461 * c + 365 * e"
proof -
  let ?Y = "400 * a + 100 * b + 4 * c + e"
  have d4: "?Y div 4 = 100 * a + 25 * b + c"
    using divmod_uniq(1) [of e 4 "100 * a + 25 * b + c"] assms by (simp add: algebra_simps)
  have d100: "?Y div 100 = 4 * a + b"
    using divmod_uniq(1) [of "4 * c + e" 100 "4 * a + b"] assms by (simp add: algebra_simps)
  have d400: "?Y div 400 = a"
    using divmod_uniq(1) [of "100 * b + 4 * c + e" 400 a] assms by (simp add: algebra_simps)
  show ?thesis
    by (simp add: days_before_year_def d4 d100 d400)
qed

lemma mod_zero_iff_top:
  fixes x D :: int
  shows "0 < x \<Longrightarrow> x \<le> D \<Longrightarrow> (x mod D = 0) = (x = D)"
  by (cases "x = D") simp_all

lemma is_leap_decomp:
  assumes "0 \<le> b" "b < 4" "0 \<le> c" "c < 25" "0 \<le> e" "e < (4::int)"
  shows "is_leap (400 * a + 100 * b + 4 * c + e + 1) \<longleftrightarrow> e = 3 \<and> (c \<noteq> 24 \<or> b = 3)"
proof -
  let ?y = "400 * a + 100 * b + 4 * c + e + 1"
  have m4: "?y mod 4 = (e + 1) mod 4"
    using mod_mult_self3 [of "100 * a + 25 * b + c" 4 "e + 1"] by (simp add: algebra_simps)
  have m100: "?y mod 100 = (4 * c + e + 1) mod 100"
    using mod_mult_self3 [of "4 * a + b" 100 "4 * c + e + 1"] by (simp add: algebra_simps)
  have m400: "?y mod 400 = (100 * b + 4 * c + e + 1) mod 400"
    using mod_mult_self3 [of a 400 "100 * b + 4 * c + e + 1"] by (simp add: algebra_simps)
  have z4: "((e + 1) mod 4 = 0) = (e + 1 = 4)"
    using assms by (intro mod_zero_iff_top) simp_all
  have z100: "((4 * c + e + 1) mod 100 = 0) = (4 * c + e + 1 = 100)"
    using assms by (intro mod_zero_iff_top) simp_all
  have z400: "((100 * b + 4 * c + e + 1) mod 400 = 0) = (100 * b + 4 * c + e + 1 = 400)"
    using assms by (intro mod_zero_iff_top) simp_all
  show ?thesis unfolding is_leap_def m4 m100 m400 z4 z100 z400 using assms by arith
qed

lemma ord2ymd_decomp:
  assumes bnd: "0 \<le> b" "b < 4" "0 \<le> c" "c < 25" "0 \<le> e" "e < 4"
    and k: "0 \<le> k" "k < 365"
  shows "ord2ymd (146097 * a + 36524 * b + 1461 * c + 365 * e + k + 1) =
     (400 * a + 100 * b + 4 * c + e + 1,
      fst (month_day (e = 3 \<and> (c \<noteq> 24 \<or> b = 3)) k),
      snd (month_day (e = 3 \<and> (c \<noteq> 24 \<or> b = 3)) k))"
proof -
  define R3 where "R3 = 365 * e + k"
  define R2 where "R2 = 1461 * c + R3"
  define R1 where "R1 = 36524 * b + R2"
  define N where "N = 146097 * a + R1"
  have b3: "0 \<le> R3" "R3 < 1461" using bnd k by (simp_all add: R3_def)
  have b2: "0 \<le> R2" "R2 < 36524" using bnd k by (simp_all add: R2_def R3_def)
  have b1: "0 \<le> R1" "R1 < 146097" using bnd k by (simp_all add: R1_def R2_def R3_def)
  note q = divmod_uniq' [OF b1, of a, folded N_def] divmod_uniq' [OF b2, of b, folded R1_def]
    divmod_uniq' [OF b3, of c, folded R2_def] divmod_uniq' [OF k, of e, folded R3_def]
  have "ord2ymd (N + 1) =
     (400 * a + 100 * b + 4 * c + e + 1,
      fst (month_day (e = 3 \<and> (c \<noteq> 24 \<or> b = 3)) k),
      snd (month_day (e = 3 \<and> (c \<noteq> 24 \<or> b = 3)) k))"
    using bnd by (simp add: ord2ymd_def DI_values q month_day_def Let_def)
  then show ?thesis by (simp add: N_def R1_def R2_def R3_def add.assoc)
qed

lemma ord2ymd_decomp_last:
  assumes bnd: "0 \<le> b" "b < 4" "0 \<le> c" "c < 25"
    and leap: "c \<noteq> 24 \<or> b = 3"
  shows "ord2ymd (146097 * a + 36524 * b + 1461 * c + 365 * 3 + 365 + 1) =
     (400 * a + 100 * b + 4 * c + 3 + 1, 12, 31)"
proof (cases "c = 24")
  case False
  define R2 where "R2 = 1461 * c + 1460"
  define R1 where "R1 = 36524 * b + R2"
  define N where "N = 146097 * a + R1"
  have b3: "(0::int) \<le> 1460" "(1460::int) < 1461" by simp_all
  have b2: "0 \<le> R2" "R2 < 36524" using bnd False by (simp_all add: R2_def)
  have b1: "0 \<le> R1" "R1 < 146097" using bnd False by (simp_all add: R1_def R2_def)
  note q = divmod_uniq' [OF b1, of a, folded N_def] divmod_uniq' [OF b2, of b, folded R1_def]
    divmod_uniq' [OF b3, of c, folded R2_def]
  have "ord2ymd (N + 1) = (400 * a + 100 * b + 4 * c + 3 + 1, 12, 31)"
    by (simp add: ord2ymd_def DI_values q Let_def)
  then show ?thesis by (simp add: N_def R1_def R2_def add.assoc)
next
  case True
  with leap have b: "b = 3" by simp
  define N where "N = 146097 * a + 146096"
  have b1: "(0::int) \<le> 146096" "(146096::int) < 146097" by simp_all
  note q = divmod_uniq' [OF b1, of a, folded N_def]
  have "ord2ymd (N + 1) = (400 * a + 100 * b + 4 * c + 3 + 1, 12, 31)"
    by (simp add: ord2ymd_def DI_values q Let_def True b)
  then show ?thesis by (simp add: N_def True b)
qed

lemma div_step:
  fixes x D :: int
  assumes D: "0 < D"
  shows "x div D = (x - 1) div D + (if x mod D = 0 then 1 else 0)"
proof (cases "x mod D = 0")
  case True
  have e: "x - 1 = D * (x div D - 1) + (D - 1)"
    using True mult_div_mod_eq [of D x] by (simp add: algebra_simps)
  have "(D * (x div D - 1) + (D - 1)) div D = x div D - 1"
    by (rule divmod_uniq'(1)) (use D in simp_all)
  then have "(x - 1) div D = x div D - 1" by (simp only: e)
  with True show ?thesis by simp
next
  case False
  have "0 \<le> x mod D" using D by simp
  with False have r: "0 < x mod D" by simp
  have e: "x - 1 = D * (x div D) + (x mod D - 1)"
    using mult_div_mod_eq [of D x] by (simp add: algebra_simps)
  have "(D * (x div D) + (x mod D - 1)) div D = x div D"
    by (rule divmod_uniq'(1)) (use D r pos_mod_bound [of D x] in linarith)+
  then have "(x - 1) div D = x div D" by (simp only: e)
  with False show ?thesis by simp
qed

lemma leap_count:
  "(p100 \<Longrightarrow> p4) \<Longrightarrow> (p400 \<Longrightarrow> p100) \<Longrightarrow>
   (if p4 then 1 else 0) - (if p100 then 1 else 0) + (if p400 then 1 else (0::int)) =
   (if p4 \<and> (\<not> p100 \<or> p400) then 1 else 0)"
  by (cases p4; cases p100; cases p400; simp)

lemma dby_step:
  "days_before_year (y + 1) = days_before_year y + (if is_leap y then 366 else 365)"
proof -
  define a4 :: int where "a4 = (if y mod 4 = 0 then 1 else 0)"
  define a100 :: int where "a100 = (if y mod 100 = 0 then 1 else 0)"
  define a400 :: int where "a400 = (if y mod 400 = 0 then 1 else 0)"
  have i1: "y mod 100 = 0 \<Longrightarrow> y mod 4 = 0"
    using mod_mod_cancel [of 4 100 y] by simp
  have i2: "y mod 400 = 0 \<Longrightarrow> y mod 100 = 0"
    using mod_mod_cancel [of 100 400 y] by simp
  have s4: "y div 4 = (y - 1) div 4 + a4"
    unfolding a4_def by (rule div_step) simp
  have s100: "y div 100 = (y - 1) div 100 + a100"
    unfolding a100_def by (rule div_step) simp
  have s400: "y div 400 = (y - 1) div 400 + a400"
    unfolding a400_def by (rule div_step) simp
  have leap: "a4 - a100 + a400 = (if is_leap y then 1 else 0)"
    unfolding a4_def a100_def a400_def is_leap_def by (rule leap_count [OF i1 i2])
  have lin: "A = A' + a4 \<Longrightarrow> B = B' + a100 \<Longrightarrow> C = C' + a400 \<Longrightarrow>
      y * 365 + A - B + C = (y - 1) * 365 + A' - B' + C' + (365 + (a4 - a100 + a400))"
    for A B C A' B' C' :: int
    by (simp add: algebra_simps)
  have "days_before_year (y + 1) = y * 365 + y div 4 - y div 100 + y div 400"
    by (simp add: days_before_year_def)
  also have "\<dots> = (y - 1) * 365 + (y - 1) div 4 - (y - 1) div 100 + (y - 1) div 400 +
      (365 + (a4 - a100 + a400))"
    by (rule lin [OF s4 s100 s400])
  also have "\<dots> = days_before_year y + (365 + (a4 - a100 + a400))"
    by (simp add: days_before_year_def Let_def)
  finally show ?thesis unfolding leap by simp
qed

lemma dby_mono: "y \<le> y' \<Longrightarrow> days_before_year y \<le> days_before_year y'"
proof (induction y' rule: int_ge_induct)
  case base
  then show ?case by simp
next
  case (step i)
  then show ?case using dby_step [of i] by (simp split: if_splits)
qed

subsection \<open>Ordinals: round trip and bounds\<close>

lemmas tables = DAYS_BEFORE_MONTH_def DAYS_IN_MONTH_def

lemma dim_calendar:
  "1 \<le> m \<Longrightarrow> m \<le> 12 \<Longrightarrow> days_in_month y m = calendar_month_length y m"
  by (drule (1) month_cases)
     (auto simp: days_in_month_def calendar_month_length_def tables)

lemma doy_bounds:
  assumes "1 \<le> m" "m \<le> 12" "1 \<le> d" "d \<le> days_in_month y m"
  shows "0 \<le> days_before_month y m + d - 1"
    and "days_before_month y m + d - 1 < (if is_leap y then 366 else 365)"
  using month_cases [OF assms(1,2)] assms(3,4)
  by (auto simp: days_in_month_def days_before_month_def tables split: if_splits)

lemma doy_last:
  assumes "1 \<le> m" "m \<le> 12" "1 \<le> d" "d \<le> days_in_month y m"
    and "days_before_month y m + d - 1 = 365"
  shows "m = 12 \<and> d = 31 \<and> is_leap y"
  using month_cases [OF assms(1,2)] assms(3,4,5)
  by (auto simp: days_in_month_def days_before_month_def tables split: if_splits)

lemma ord2ymd_ymd2ord:
  assumes y: "1 \<le> y" and m: "1 \<le> m" "m \<le> 12" and d: "1 \<le> d" "d \<le> days_in_month y m"
  shows "ord2ymd (ymd2ord y m d) = (y, m, d)"
proof -
  from y have "0 \<le> y - 1" by simp
  then obtain a b c e where Y: "y - 1 = 400 * a + 100 * b + 4 * c + e"
    and bnd: "0 \<le> b" "b < 4" "0 \<le> c" "c < 25" "0 \<le> e" "e < 4"
    by (rule year_decomp)
  from Y have y_eq: "y = 400 * a + 100 * b + 4 * c + e + 1" by simp
  define k where "k = days_before_month y m + d - 1"
  have leap: "is_leap y \<longleftrightarrow> e = 3 \<and> (c \<noteq> 24 \<or> b = 3)"
    unfolding y_eq by (rule is_leap_decomp [OF bnd])
  have dby: "days_before_year y = 146097 * a + 36524 * b + 1461 * c + 365 * e"
    unfolding y_eq by (rule dby_decomp [OF bnd])
  have ord: "ymd2ord y m d = 146097 * a + 36524 * b + 1461 * c + 365 * e + k + 1"
    by (simp add: ymd2ord_def dby k_def)
  from doy_bounds [OF m d] have k: "0 \<le> k" "k < (if is_leap y then 366 else 365)"
    by (simp_all add: k_def)
  show ?thesis
  proof (cases "k = 365")
    case True
    with doy_last [OF m d] have md: "m = 12" "d = 31" and lp: "is_leap y"
      by (simp_all add: k_def)
    from lp leap have e: "e = 3" and cb: "c \<noteq> 24 \<or> b = 3" by simp_all
    have "ord2ymd (ymd2ord y m d) = (400 * a + 100 * b + 4 * c + 3 + 1, 12, 31)"
      unfolding ord True e by (rule ord2ymd_decomp_last [OF bnd(1-4) cb])
    then show ?thesis unfolding md y_eq e by simp
  next
    case False
    with k have k365: "k < 365" by (simp split: if_splits)
    have "month_day (is_leap y) k = (m, d)"
      using month_day_correct [OF m d(1), of "is_leap y"] d(2)
      by (simp add: k_def days_in_month_def days_before_month_def)
    moreover have "ord2ymd (ymd2ord y m d) =
        (400 * a + 100 * b + 4 * c + e + 1,
         fst (month_day (e = 3 \<and> (c \<noteq> 24 \<or> b = 3)) k),
         snd (month_day (e = 3 \<and> (c \<noteq> 24 \<or> b = 3)) k))"
      unfolding ord by (rule ord2ymd_decomp [OF bnd k(1) k365])
    ultimately show ?thesis unfolding leap [symmetric] y_eq [symmetric] by simp
  qed
qed

lemma prev_ordinal:
  assumes m: "1 \<le> m" "m \<le> 12"
  shows "ymd2ord y m 1 - 1 =
     (if m = 1 then ymd2ord (y - 1) 12 31 else ymd2ord y (m - 1) (days_in_month y (m - 1)))"
  using month_cases [OF m] dby_step [of "y - 1"]
  by (auto simp: ymd2ord_def days_before_month_def days_in_month_def tables)

lemma dby_bounds:
  assumes "1 \<le> y" "y \<le> 9999"
  shows "0 \<le> days_before_year y" and "days_before_year y \<le> 3651694"
proof -
  have "days_before_year 1 = 0" "days_before_year 9999 = 3651694"
    by (simp_all add: days_before_year_def)
  with dby_mono [OF assms(1)] dby_mono [OF assms(2)] show "0 \<le> days_before_year y"
    and "days_before_year y \<le> 3651694" by simp_all
qed

lemma ordinal_bounds:
  assumes y: "1 \<le> y" "y \<le> 9999" and m: "1 \<le> m" "m \<le> 12" and d: "1 \<le> d" "d \<le> days_in_month y m"
  shows "0 < ymd2ord y m d" and "ymd2ord y m d \<le> MAXORDINAL"
proof -
  have nl: "\<not> is_leap 9999" by (simp add: is_leap_def)
  show "0 < ymd2ord y m d"
    using dby_bounds(1) [OF y] doy_bounds(1) [OF m d] by (simp add: ymd2ord_def)
  show "ymd2ord y m d \<le> MAXORDINAL"
  proof (cases "y = 9999")
    case True
    with doy_bounds(2) [OF m d] nl dby_bounds(2) [OF y]
    show ?thesis by (simp add: ymd2ord_def MAXORDINAL_def)
  next
    case False
    with y have "y + 1 \<le> 9999" by simp
    from dby_mono [OF this] have "days_before_year (y + 1) \<le> 3651694"
      by (simp add: days_before_year_def)
    with dby_step [of y] doy_bounds(2) [OF m d]
    show ?thesis by (simp add: ymd2ord_def MAXORDINAL_def split: if_splits)
  qed
qed

lemma dim_pos: "1 \<le> m \<Longrightarrow> m \<le> 12 \<Longrightarrow> 1 \<le> days_in_month y m"
  by (drule (1) month_cases) (auto simp: days_in_month_def tables)

subsection \<open>Previous month\<close>

text \<open>
  C7. In previous-month mode, for every reference date that has a previous month among the
  dates (every valid date but those of January of year 1, the first month of the calendar
  of \<open>datetime\<close>), the resolver returns the first and the last day of the calendar month
  before the month of the reference date: December of the year before for a date in
  January, and the right last day for every month length, leap years included.
\<close>

theorem get_date_range_last_month:
  assumes lm: "last_month a" and v: "valid_date today"
    and prev: "\<not> (year today = MINYEAR \<and> month today = 1)"
  shows "get_date_range today a = Inr (prev_month_range today)"
proof -
  define y m where "y = year today" and "m = month today"
  define py pm where "py = (if m = 1 then y - 1 else y)" and "pm = (if m = 1 then 12 else m - 1)"
  from v have y: "1 \<le> y" "y \<le> 9999" and m: "1 \<le> m" "m \<le> 12"
    by (simp_all add: valid_date_def y_def m_def MINYEAR_def MAXYEAR_def)
  from prev y have py: "1 \<le> py" "py \<le> 9999" and pm: "1 \<le> pm" "pm \<le> 12"
    using m by (auto simp: py_def pm_def y_def m_def MINYEAR_def)
  have first: "date_new y m 1 = Inr (Date y m 1)"
    using y m dim_pos [OF m, of y] by (simp add: date_new_def MINYEAR_def MAXYEAR_def)
  have dl: "1 \<le> days_in_month py pm" by (rule dim_pos [OF pm])
  have o: "ymd2ord y m 1 - 1 = ymd2ord py pm (days_in_month py pm)"
    using prev_ordinal [OF m, of y] by (auto simp: py_def pm_def days_in_month_def tables)
  have rt: "ord2ymd (ymd2ord py pm (days_in_month py pm)) = (py, pm, days_in_month py pm)"
    by (rule ord2ymd_ymd2ord [OF py(1) pm dl]) simp
  have newl: "date_new py pm (days_in_month py pm) = Inr (Date py pm (days_in_month py pm))"
    using py pm dl by (simp add: date_new_def MINYEAR_def MAXYEAR_def)
  have sub: "date_sub_days (Date y m 1) 1 = Inr (Date py pm (days_in_month py pm))"
    using ordinal_bounds [OF py pm dl order_refl]
    by (simp add: date_sub_days_def toordinal_def o fromordinal_def rt newl)
  have newf: "date_new py pm 1 = Inr (Date py pm 1)"
    using py pm dl by (simp add: date_new_def MINYEAR_def MAXYEAR_def)
  have "get_date_range today a = Inr (Date py pm 1, Date py pm (days_in_month py pm))"
    using lm by (simp add: get_date_range_def first [unfolded y_def m_def] sub [unfolded y_def m_def] newf)
  also have "\<dots> = Inr (prev_month_range today)"
    using dim_calendar [OF pm, of py]
    by (auto simp: prev_month_range_def Let_def py_def pm_def y_def m_def)
  finally show ?thesis .
qed

theorem get_date_range_last_month_witness:
  "get_date_range (Date 2025 1 15) last_month_args = Inr (Date 2024 12 1, Date 2024 12 31)"
  using get_date_range_last_month [of last_month_args "Date 2025 1 15"]
  by (simp add: last_month_args_def valid_date_def prev_month_range_def
        calendar_month_length_def days_in_month_def DAYS_IN_MONTH_def MINYEAR_def MAXYEAR_def)

text \<open>In January of year 1 there is no previous month: the subtraction overflows.\<close>

lemma get_date_range_first_month:
  "get_date_range (Date 1 1 15) last_month_args =
     Inl (OverflowError ''date value out of range'')"
  by (simp add: get_date_range_def last_month_args_def date_new_def MINYEAR_def MAXYEAR_def
        days_in_month_def DAYS_IN_MONTH_def date_sub_days_def toordinal_def ymd2ord_def
        days_before_year_def days_before_month_def DAYS_BEFORE_MONTH_def)

section \<open>Properties of the pipeline\<close>

subsection \<open>fetch\_data and the release of the connection\<close>

lemma cursor_execute_self: "cursor_execute d q ps (self, tr) = (r, self', tr') \<Longrightarrow> self' = self"
  by (auto simp: cursor_execute_def split: option.splits)

lemma conn_commit_self: "conn_commit d (self, tr) = (r, self', tr') \<Longrightarrow> self' = self"
  by (auto simp: conn_commit_def split: option.splits)

lemma exec_fetch_self: "exec_fetch d (self, tr) = (r, self', tr') \<Longrightarrow> self' = self"
  by (auto simp: exec_fetch_def Let_def split: option.splits sum.splits prod.splits
      dest: conn_commit_self)

lemma exec_count_self: "exec_count d (self, tr) = (r, self', tr') \<Longrightarrow> self' = self"
  by (auto simp: exec_count_def Let_def split: option.splits sum.splits prod.splits
      dest: conn_commit_self)

lemma exec_try_self: "exec_try d q ps (self, tr) = (r, self', tr') \<Longrightarrow> self' = self"
  by (auto simp: exec_try_def split: if_splits sum.splits prod.splits
      dest!: cursor_execute_self exec_fetch_self exec_count_self)

lemma exec_Inr_live:
  "exec d q ps s = (Inr r, self', tr') \<Longrightarrow> conn self' \<noteq> None \<and> cursor self' \<noteq> None"
  by (auto simp: exec_def split: sum.splits prod.splits bool.splits
      dest!: exec_try_self reconnect_True_live)

lemma close_live:
  "conn self \<noteq> None \<Longrightarrow> cursor self \<noteq> None \<Longrightarrow> close d (self, tr) = (Inr u, self', tr') \<Longrightarrow>
   tr' = tr @ [DrvCursorClose, DrvConnClose] \<and> conn self' = None \<and> cursor self' = None"
  by (auto simp: close_def split: option.splits)

lemma fetch_data_closes_on_success:
  assumes "fetch_data d cfg a b tr = (Inr r, tr')"
  shows "\<exists>tr0. tr' = tr0 @ [DrvCursorClose, DrvConnClose]"
proof -
  from assms have "fetch_try d cfg a b tr = (Inr r, tr')"
    by (auto simp: fetch_data_def split: sum.splits prod.splits error.splits)
  then obtain s1 self2 tr2 self3 where
    ex: "exec d get_ops_between_dates (Some [PDate a, PDate b]) s1 = (Inr r, self2, tr2)"
    and cl: "close d (self2, tr2) = (Inr (), self3, tr')"
    by (auto simp: fetch_try_def Let_def split: sum.splits prod.splits)
  from exec_Inr_live [OF ex] close_live [OF _ _ cl] show ?thesis by blast
qed

text \<open>
  C1 does not hold of the code. On a driver that accepts the connection and rejects the
  query, \<open>fetch_data\<close> raises the driver's error after the connection was opened, the
  statement executed and rolled back, and the two log records written: neither the cursor
  nor the connection is closed before the exception leaves \<open>fetch_data\<close>. On the path
  on which the query succeeds the connection is closed (lemma
  \<open>fetch_data_closes_on_success\<close>).
\<close>

theorem fetch_data_leaks_on_error:
  "fetch_data failing_driver example_db_config (Date 2025 3 1) (Date 2025 3 31) [] =
     (Inl (DriverError ''Invalid object name ven_operations''),
      [DrvConnect
         ''DRIVER={ODBC Driver 17 for SQL Server};SERVER=db01;DATABASE=ven;UID=reporter;PWD=secret;'',
       DrvCursor,
       DrvExecute ''SELECT 1'' None,
       DrvExecute get_ops_between_dates (Some [PDate (Date 2025 3 1), PDate (Date 2025 3 31)]),
       DrvRollback,
       Log ERROR (''Error executing SQL script: '' @ ''Invalid object name ven_operations''),
       Log ERROR (''Error fetching data: '' @ ''Invalid object name ven_operations'')]) \<and>
   no_close (snd (fetch_data failing_driver example_db_config (Date 2025 3 1) (Date 2025 3 31) []))"
  by (simp add: fetch_data_def fetch_try_def connection_data_def example_db_config_def fmt_def
        SQLConnection_def connect_def connect_try_def connection_string_def falsy_str_def
        exec_def reconnect_if_needed_def is_connected_def cursor_execute_def exec_try_def
        truthy_params_def conn_rollback_def failing_driver_def quiet_driver_def no_close_def)

subsection \<open>main: delivery failure\<close>

lemma nfw_append [simp]: "no_file_write (xs @ ys) = (no_file_write xs \<and> no_file_write ys)"
  by (auto simp: no_file_write_def list_ex_iff)

lemma nfw_Nil [simp]: "no_file_write []"
  by (simp add: no_file_write_def)

lemma nfw_Cons [simp]: "no_file_write (ev # tr) = (\<not> is_file_write ev \<and> no_file_write tr)"
  by (simp add: no_file_write_def)

lemma nfw_connect: "connect d (self, tr) = (r, self', tr') \<Longrightarrow> no_file_write tr \<Longrightarrow> no_file_write tr'"
  by (auto simp: connect_def connect_try_def Let_def split: sum.splits option.splits prod.splits)

lemma nfw_cursor_execute:
  "cursor_execute d q ps (self, tr) = (r, self', tr') \<Longrightarrow> no_file_write tr \<Longrightarrow> no_file_write tr'"
  by (auto simp: cursor_execute_def split: option.splits)

lemma nfw_conn_commit:
  "conn_commit d (self, tr) = (r, self', tr') \<Longrightarrow> no_file_write tr \<Longrightarrow> no_file_write tr'"
  by (auto simp: conn_commit_def split: option.splits)

lemma nfw_conn_rollback:
  "conn_rollback d (self, tr) = (r, self', tr') \<Longrightarrow> no_file_write tr \<Longrightarrow> no_file_write tr'"
  by (auto simp: conn_rollback_def split: option.splits)

lemma nfw_is_connected:
  "is_connected d (self, tr) = (r, self', tr') \<Longrightarrow> no_file_write tr \<Longrightarrow> no_file_write tr'"
  by (auto simp: is_connected_def split: if_splits sum.splits prod.splits dest: nfw_cursor_execute)

lemma nfw_reconnect:
  "reconnect_if_needed d (self, tr) = (r, self', tr') \<Longrightarrow> no_file_write tr \<Longrightarrow> no_file_write tr'"
  by (auto simp: reconnect_if_needed_def split: sum.splits prod.splits bool.splits
      dest: nfw_is_connected nfw_connect)

lemma nfw_exec_fetch:
  "exec_fetch d (self, tr) = (r, self', tr') \<Longrightarrow> no_file_write tr \<Longrightarrow> no_file_write tr'"
  by (auto simp: exec_fetch_def Let_def split: option.splits sum.splits prod.splits
      dest: nfw_conn_commit)

lemma nfw_exec_count:
  "exec_count d (self, tr) = (r, self', tr') \<Longrightarrow> no_file_write tr \<Longrightarrow> no_file_write tr'"
  by (auto simp: exec_count_def Let_def split: option.splits sum.splits prod.splits
      dest: nfw_conn_commit)

lemma nfw_exec_try:
  "exec_try d q ps (self, tr) = (r, self', tr') \<Longrightarrow> no_file_write tr \<Longrightarrow> no_file_write tr'"
  by (auto simp: exec_try_def split: if_splits sum.splits prod.splits
      dest: nfw_cursor_execute nfw_exec_fetch nfw_exec_count)

lemma nfw_exec:
  "exec d q ps (self, tr) = (r, self', tr') \<Longrightarrow> no_file_write tr \<Longrightarrow> no_file_write tr'"
  by (auto simp: exec_def split: sum.splits prod.splits bool.splits)
     (blast dest: nfw_reconnect nfw_exec_try nfw_conn_rollback)+

lemma nfw_close:
  "close d (self, tr) = (r, self', tr') \<Longrightarrow> no_file_write tr \<Longrightarrow> no_file_write tr'"
  by (auto simp: close_def split: if_splits option.splits sum.splits prod.splits)

lemma nfw_SQLConnection:
  "SQLConnection d srv dbn usr pwd t drv tr = (r, self', tr') \<Longrightarrow> no_file_write tr \<Longrightarrow>
   no_file_write tr'"
  by (auto simp: SQLConnection_def Let_def split: sum.splits prod.splits dest: nfw_connect)

lemma nfw_fetch_try:
  "fetch_try d cfg a b tr = (r, tr') \<Longrightarrow> no_file_write tr \<Longrightarrow> no_file_write tr'"
  by (auto simp: fetch_try_def Let_def split: sum.splits prod.splits)
     (blast dest: nfw_SQLConnection nfw_exec nfw_close)+

lemma nfw_fetch_data:
  "fetch_data d cfg a b tr = (r, tr') \<Longrightarrow> no_file_write tr \<Longrightarrow> no_file_write tr'"
  by (auto simp: fetch_data_def split: sum.splits prod.splits error.splits dest: nfw_fetch_try)

lemma nfw_build_bcc:
  "build_bcc rs acc tr = (bcc_list, tr') \<Longrightarrow> no_file_write tr \<Longrightarrow> no_file_write tr'"
  by (induction rs acc tr rule: build_bcc.induct) (auto split: option.splits)

lemma nfw_send_try:
  "send_try e rcpts x cfg tr = (r, tr') \<Longrightarrow> no_file_write tr \<Longrightarrow> no_file_write tr'"
  by (auto simp: send_try_def split: option.splits prod.splits if_splits sum.splits
      dest: nfw_build_bcc)

lemma nfw_send_email:
  "send_email_with_attachment e rcpts x cfg tr = (r, tr') \<Longrightarrow> no_file_write tr \<Longrightarrow>
   no_file_write tr'"
  by (auto simp: send_email_with_attachment_def split: sum.splits prod.splits dest: nfw_send_try)

text \<open>
  C3. Take a run in which the configuration loads, the date range resolves, \<open>fetch_data\<close>
  returns a non-empty list of rows, the report is rendered, the mail section has all six
  keys, and \<open>send_email_with_attachment\<close> returns false. Then \<open>main\<close> returns exit
  status 0, its last two events are the error log record and the printed line
  \<open>Report generated but email sending failed\<close>, and no file is written anywhere in
  the run.
\<close>

theorem main_delivery_failure:
  assumes cfg: "env_config e = Inr cfg"
    and rng: "get_date_range (env_today e) (env_args e) = Inr (start_date, end_date)"
    and dbc: "db cfg = Some db_config"
    and ft: "fetch_data (env_odbc e) db_config start_date end_date
               (log_before_fetch e start_date end_date) = (Inr (Rows data), tr1)"
    and ne: "data \<noteq> []"
    and rd: "generate_excel_report e data = Inr excel_data"
    and mc: "mail cfg = Some m" "list_all (mail_has m) mail_keys"
    and rc: "recipients m = Some rcpts"
    and sf: "send_email_with_attachment e rcpts excel_data m
               (tr1 @ log_before_send data excel_data rcpts) = (Inr False, tr3)"
  shows "main e = (0, tr3 @ [Log ERROR ''Failed to send email'',
                             Print ''Report generated but email sending failed'']) \<and>
         no_file_write (snd (main e))"
proof -
  have m: "main e = (0, tr3 @ [Log ERROR ''Failed to send email'',
                             Print ''Report generated but email sending failed''])"
    using assms
    by (simp add: main_def main_try_def deliver_def Let_def
          log_before_fetch_def log_before_send_def)
  have "no_file_write (log_before_fetch e start_date end_date)"
    by (simp add: log_before_fetch_def)
  from nfw_fetch_data [OF ft this] have "no_file_write (tr1 @ log_before_send data excel_data rcpts)"
    by (simp add: log_before_send_def)
  from nfw_send_email [OF sf this] have "no_file_write tr3" .
  with m show ?thesis by simp
qed

lemma march_range:
  "get_date_range (Date 2025 4 2) march_args = Inr (Date 2025 3 1, Date 2025 3 31)"
  by (simp add: get_date_range_def range_try_def strptime_arg_def march_args_def
        strptime_0301 strptime_0331 date_gt_def)

lemma select_fetch:
  "fst (fetch_data select_driver example_db_config (Date 2025 3 1) (Date 2025 3 31) tr) =
     Inr (Rows example_rows)"
  by (simp add: fetch_data_def fetch_try_def connection_data_def example_db_config_def fmt_def
        SQLConnection_def connect_def connect_try_def connection_string_def falsy_str_def
        exec_def reconnect_if_needed_def is_connected_def cursor_execute_def exec_try_def
        exec_fetch_def conn_commit_def close_def
        truthy_params_def select_driver_def quiet_driver_def example_rows_def)

lemma failing_send:
  "fst (send_email_with_attachment failing_mail_env [[''email'' \<mapsto> ''ops@example.org'']]
          ''PK'' example_mail tr) = Inr False"
  by (simp add: send_email_with_attachment_def send_try_def required_config_def
        example_mail_def failing_mail_env_def)

theorem main_delivery_failure_witness:
  "fst (main failing_mail_env) = 0 \<and>
   last (snd (main failing_mail_env)) = Print ''Report generated but email sending failed'' \<and>
   no_file_write (snd (main failing_mail_env))"
proof -
  let ?e = failing_mail_env
  let ?tr0 = "log_before_fetch ?e (Date 2025 3 1) (Date 2025 3 31)"
  let ?f = "fetch_data (env_odbc ?e) example_db_config (Date 2025 3 1) (Date 2025 3 31) ?tr0"
  let ?tr2 = "snd ?f @ log_before_send example_rows ''PK'' [[''email'' \<mapsto> ''ops@example.org'']]"
  let ?s = "send_email_with_attachment ?e [[''email'' \<mapsto> ''ops@example.org'']] ''PK''
              example_mail ?tr2"
  have cfg: "env_config ?e = Inr \<lparr>db = Some example_db_config, mail = Some example_mail\<rparr>"
    by (simp add: failing_mail_env_def)
  have rng: "get_date_range (env_today ?e) (env_args ?e) = Inr (Date 2025 3 1, Date 2025 3 31)"
    by (simp add: failing_mail_env_def march_range)
  have ft: "?f = (Inr (Rows example_rows), snd ?f)"
    using select_fetch [of ?tr0] by (simp add: prod_eq_iff failing_mail_env_def)
  have rd: "generate_excel_report ?e example_rows = Inr ''PK''"
    by (simp add: generate_excel_report_def failing_mail_env_def example_rows_def)
  have mc: "list_all (mail_has example_mail) mail_keys"
    by (simp add: mail_has_def mail_keys_def example_mail_def)
  have rc: "recipients example_mail = Some [[''email'' \<mapsto> ''ops@example.org'']]"
    by (simp add: example_mail_def)
  have sf: "?s = (Inr False, snd ?s)"
    using failing_send [of ?tr2] by (simp add: prod_eq_iff)
  have dbc: "db \<lparr>db = Some example_db_config, mail = Some example_mail\<rparr> = Some example_db_config"
    and ml: "mail \<lparr>db = Some example_db_config, mail = Some example_mail\<rparr> = Some example_mail"
    and ne: "example_rows \<noteq> []"
    by (simp_all add: example_rows_def)
  note r = main_delivery_failure [OF cfg rng dbc ft ne rd ml mc rc sf]
  show ?thesis using r [THEN conjunct2] by (simp add: r [THEN conjunct1])
qed

end
